theory Spec2Isabelle
  imports Main
begin

section \<open>The mirror configuration validator (configs/validate\_schemas.py)\<close>

text \<open>
  The script loads one JSON Schema document, checks five fixed configuration files
  against it, prints a report and exits with status 0 or 1. The model below follows
  the three functions of the script (\<open>load_schema\<close>, \<open>validate_file\<close>, \<open>main\<close>) and the
  \<open>__main__\<close> block, with the filesystem and standard output as an explicit state.
\<close>

subsection \<open>Strings and paths\<close>

text \<open>
  A Python \<open>str\<close> is a sequence of Unicode code points. Most literals of the script
  are Chinese text and pictographs, so a string is a list of code points; ASCII
  literals are written through \<open>ascii\<close>.
\<close>

type_synonym pystr = "nat list"

definition ascii :: "string \<Rightarrow> pystr" where
  "ascii s = map of_char s"

text \<open>
  A \<open>pathlib.Path\<close> is its sequence of components; \<open>p / name\<close> appends one component,
  \<open>p.name\<close> is the last one and \<open>str(p)\<close> joins them with a slash (the first
  component of an absolute path is the empty string).
\<close>

type_synonym path = "pystr list"

definition joinpath :: "path \<Rightarrow> pystr \<Rightarrow> path" where
  "joinpath p name = p @ [name]"

fun path_name :: "path \<Rightarrow> pystr" where
  "path_name [] = []"
| "path_name [c] = c"
| "path_name (c # cs) = path_name cs"

fun str_path :: "path \<Rightarrow> pystr" where
  "str_path [] = []"
| "str_path [c] = c"
| "str_path (c # cs) = c @ [47] @ str_path cs"

subsection \<open>Exceptions\<close>

text \<open>
  The exceptions that \<open>stat\<close>, \<open>open\<close>, \<open>json.load\<close> and \<open>jsonschema.validate\<close> raise,
  all of them subclasses of \<open>Exception\<close>. \<open>ValidationError\<close> carries its \<open>message\<close>
  field, its \<open>path\<close> field (the names leading to the offending value) and what \<open>str\<close>
  appends to the message; \<open>FileNotFoundError\<close> carries the path that was opened, the
  others their \<open>str\<close> rendering. \<open>JSONDecodeError\<close>, \<open>SchemaError\<close> and
  \<open>ValidationError\<close> are pairwise unrelated classes, as in the libraries.
\<close>

datatype exn =
    ValidationError pystr "pystr list" pystr
  | JSONDecodeError pystr
  | SchemaError pystr
  | FileNotFoundError path
  | PermissionError pystr
  | OSError pystr
  | UnicodeDecodeError pystr
  | RecursionError pystr
  | OtherException pystr

subsection \<open>What is taken from the runtime and the two libraries\<close>

text \<open>
  \<open>repr\<close> of a string, \<open>json.loads\<close> and \<open>jsonschema.validate\<close> are not code of the
  repository and are parameters of the model, over any type \<open>'j\<close> of JSON values. Each
  of the two library functions returns or raises; neither touches the filesystem or
  standard output. \<open>jsonschema_validate rt instance schema\<close> is
  \<open>validate(instance=..., schema=...)\<close>.
\<close>

record 'j runtime =
  py_repr :: "pystr \<Rightarrow> pystr"
  json_loads :: "pystr \<Rightarrow> exn + 'j"
  jsonschema_validate :: "'j \<Rightarrow> 'j \<Rightarrow> exn + unit"

text \<open>\<open>str(e)\<close>. A \<open>FileNotFoundError\<close> prints the filename through \<open>repr\<close>.\<close>

fun str_exn :: "'j runtime \<Rightarrow> exn \<Rightarrow> pystr" where
  "str_exn rt (ValidationError m p s) = m @ s"
| "str_exn rt (JSONDecodeError s) = s"
| "str_exn rt (SchemaError s) = s"
| "str_exn rt (FileNotFoundError p) =
     ascii ''[Errno 2] No such file or directory: '' @ py_repr rt (str_path p)"
| "str_exn rt (PermissionError s) = s"
| "str_exn rt (OSError s) = s"
| "str_exn rt (UnicodeDecodeError s) = s"
| "str_exn rt (RecursionError s) = s"
| "str_exn rt (OtherException s) = s"

subsection \<open>The filesystem and standard output\<close>

text \<open>
  A path of the filesystem is absent, or holds one of three nodes:
  \<^item> \<open>Inaccessible e\<close>: \<open>stat\<close> fails on the path with an error other than the four that
    \<open>Path.exists\<close> swallows (for instance \<open>PermissionError\<close> on a link into a directory
    that may not be searched); up to Python 3.13 \<open>exists()\<close> raises it, and so does
    \<open>open\<close>;
  \<^item> \<open>Unreadable e\<close>: the path exists, and opening or decoding it as UTF-8 text raises
    \<open>e\<close> (a directory, a file without read permission, bytes that are not UTF-8);
  \<^item> \<open>Text t\<close>: a file that is read as the text \<open>t\<close>.

  Every access is logged, and \<open>print\<close> appends one entry to \<open>stdout\<close>.
\<close>

datatype fnode = Inaccessible exn | Unreadable exn | Text pystr

datatype mode = R | W

datatype event = EvExists path | EvOpen path mode

record world =
  files :: "path \<rightharpoonup> fnode"
  stdout :: "pystr list"
  fslog :: "event list"

definition py_print :: "pystr \<Rightarrow> world \<Rightarrow> world" where
  "py_print s w = w\<lparr>stdout := stdout w @ [s]\<rparr>"

text \<open>\<open>p.exists()\<close>: true, false, or the exception of \<open>stat\<close>.\<close>

definition path_exists :: "path \<Rightarrow> world \<Rightarrow> (exn + bool) \<times> world" where
  "path_exists p w =
     (case files w p of
        None \<Rightarrow> Inr False
      | Some (Inaccessible e) \<Rightarrow> Inl e
      | Some (Unreadable e) \<Rightarrow> Inr True
      | Some (Text t) \<Rightarrow> Inr True,
      w\<lparr>fslog := fslog w @ [EvExists p]\<rparr>)"

text \<open>
  \<open>with open(p, mode, encoding='utf-8') as f: f.read()\<close>. Mode \<open>'r'\<close>, the only one
  the script uses, leaves the filesystem as it is. Mode \<open>'w'\<close> is what a writing script
  would do: it creates or truncates the file, and reading from it then fails.
\<close>

fun open_and_read :: "path \<Rightarrow> mode \<Rightarrow> world \<Rightarrow> (exn + pystr) \<times> world" where
  "open_and_read p R w =
     (case files w p of
        None \<Rightarrow> Inl (FileNotFoundError p)
      | Some (Inaccessible e) \<Rightarrow> Inl e
      | Some (Unreadable e) \<Rightarrow> Inl e
      | Some (Text t) \<Rightarrow> Inr t,
      w\<lparr>fslog := fslog w @ [EvOpen p R]\<rparr>)"
| "open_and_read p W w =
     (case files w p of
        Some (Inaccessible e) \<Rightarrow> (Inl e, w\<lparr>fslog := fslog w @ [EvOpen p W]\<rparr>)
      | Some (Unreadable e) \<Rightarrow> (Inl e, w\<lparr>fslog := fslog w @ [EvOpen p W]\<rparr>)
      | _ \<Rightarrow>
          (Inl (OSError (ascii ''not readable'')),
           w\<lparr>files := (files w)(p \<mapsto> Text []), fslog := fslog w @ [EvOpen p W]\<rparr>))"

subsection \<open>Constants of the script\<close>

definition SCHEMA_FILE :: "path \<Rightarrow> path" where
  "SCHEMA_FILE CONFIG_DIR = joinpath CONFIG_DIR (ascii ''ToolsConfiguration.schema.json'')"

definition MIRROR_FILES :: "pystr list" where
  "MIRROR_FILES =
     [ascii ''brew_mirror.json'',
      ascii ''maven_mirror.json'',
      ascii ''npm_mirror.json'',
      ascii ''orbstack_mirror.json'',
      ascii ''python_pip.json'']"

text \<open>The message literals, as code points. In the order of the script:
  check mark and "passed"; cross and "validation failed: "; cross and
  "JSON parse error: "; cross and "error: "; warning sign and "file does not exist".\<close>

definition msg_passed :: pystr where
  "msg_passed = [9989, 32, 36890, 36807]"

definition msg_validation_failed :: pystr where
  "msg_validation_failed = [10060, 32, 39564, 35777, 22833, 36133, 58, 32]"

definition msg_json_error :: pystr where
  "msg_json_error = [10060, 32] @ ascii ''JSON '' @ [35299, 26512, 38169, 35823, 58, 32]"

definition msg_error :: pystr where
  "msg_error = [10060, 32, 38169, 35823, 58, 32]"

definition msg_missing :: pystr where
  "msg_missing = [9888, 65039, 32, 25991, 20214, 19981, 23384, 22312]"

text \<open>The banner and report literals: the title, "schema loaded: ", "cannot load the
  schema file: ", "results:", "all files passed" and "some files failed".\<close>

definition msg_title :: pystr where
  "msg_title = [38236, 20687, 37197, 32622, 25991, 20214, 32] @ ascii ''Schema '' @ [39564, 35777]"

definition msg_schema_loaded :: pystr where
  "msg_schema_loaded = [10003, 32, 24050, 21152, 36733, 32] @ ascii ''schema: ''"

definition msg_schema_failed :: pystr where
  "msg_schema_failed =
     [10060, 32, 26080, 27861, 21152, 36733, 32] @ ascii ''schema '' @ [25991, 20214, 58, 32]"

definition msg_results :: pystr where
  "msg_results = [10, 39564, 35777, 32467, 26524, 58]"

definition msg_all_passed :: pystr where
  "msg_all_passed =
     [10, 9989, 32, 25152, 26377, 25991, 20214, 39564, 35777, 36890, 36807, 65281]"

definition msg_some_failed :: pystr where
  "msg_some_failed =
     [10, 10060, 32, 37096, 20998, 25991, 20214, 39564, 35777, 22833, 36133, 65292,
      35831, 26816, 26597, 19978, 36848, 38169, 35823, 65281]"

subsection \<open>load\_schema and validate\_file\<close>

definition load_schema :: "'j runtime \<Rightarrow> path \<Rightarrow> world \<Rightarrow> (exn + 'j) \<times> world" where
  "load_schema rt CONFIG_DIR w =
     (case open_and_read (SCHEMA_FILE CONFIG_DIR) R w of
        (Inl e, w') \<Rightarrow> (Inl e, w')
      | (Inr txt, w') \<Rightarrow> (json_loads rt txt, w'))"

text \<open>The three \<open>except\<close> clauses of \<open>validate_file\<close>, in the order of the source. The
  first prints \<open>e.message\<close> and nothing else of the error.\<close>

fun validate_file_except :: "'j runtime \<Rightarrow> exn \<Rightarrow> bool \<times> pystr" where
  "validate_file_except rt (ValidationError m p s) = (False, msg_validation_failed @ m)"
| "validate_file_except rt (JSONDecodeError s) = (False, msg_json_error @ s)"
| "validate_file_except rt e = (False, msg_error @ str_exn rt e)"

definition validate_file ::
  "'j runtime \<Rightarrow> 'j \<Rightarrow> path \<Rightarrow> world \<Rightarrow> (bool \<times> pystr) \<times> world" where
  "validate_file rt schema file_path w =
     (case open_and_read file_path R w of
        (Inl e, w') \<Rightarrow> (validate_file_except rt e, w')
      | (Inr txt, w') \<Rightarrow>
          (case json_loads rt txt of
             Inl e \<Rightarrow> (validate_file_except rt e, w')
           | Inr data \<Rightarrow>
               (case jsonschema_validate rt data schema of
                  Inl e \<Rightarrow> (validate_file_except rt e, w')
                | Inr _ \<Rightarrow> ((True, msg_passed), w'))))"

subsection \<open>main\<close>

type_synonym result = "pystr \<times> bool \<times> pystr"

text \<open>
  The first loop of \<open>main\<close>. Its body tests that the path exists and only then calls
  \<open>validate_file\<close>; one entry is appended to \<open>results\<close> per filename. The existence
  test stands outside any \<open>try\<close>: an exception of it leaves the loop and \<open>main\<close>, and
  the results collected so far are lost.
\<close>

definition main_loop_body ::
  "'j runtime \<Rightarrow> path \<Rightarrow> 'j \<Rightarrow> pystr \<Rightarrow> world \<Rightarrow> (exn + result) \<times> world" where
  "main_loop_body rt CONFIG_DIR schema filename w =
     (let file_path = joinpath CONFIG_DIR filename in
      case path_exists file_path w of
        (Inl e, w1) \<Rightarrow> (Inl e, w1)
      | (Inr False, w1) \<Rightarrow> (Inr (filename, False, msg_missing), w1)
      | (Inr True, w1) \<Rightarrow>
          (case validate_file rt schema file_path w1 of
             ((success, message), w2) \<Rightarrow> (Inr (filename, success, message), w2)))"

fun validate_files ::
  "'j runtime \<Rightarrow> path \<Rightarrow> 'j \<Rightarrow> pystr list \<Rightarrow> result list \<Rightarrow> world \<Rightarrow>
   (exn + result list) \<times> world"
where
  "validate_files rt CONFIG_DIR schema [] results w = (Inr results, w)"
| "validate_files rt CONFIG_DIR schema (filename # rest) results w =
     (case main_loop_body rt CONFIG_DIR schema filename w of
        (Inl e, w') \<Rightarrow> (Inl e, w')
      | (Inr r, w') \<Rightarrow> validate_files rt CONFIG_DIR schema rest (results @ [r]) w')"

text \<open>\<open>f"{filename:30s}"\<close>: left-aligned in a field of 30, never truncated.\<close>

definition format_30s :: "pystr \<Rightarrow> pystr" where
  "format_30s s = s @ replicate (30 - length s) 32"

definition report_line :: "result \<Rightarrow> pystr" where
  "report_line r =
     (case r of (filename, success, message) \<Rightarrow>
        (if success then [10003] else [10007]) @ [32] @ format_30s filename @ [32] @ message)"

text \<open>The second loop of \<open>main\<close>: one line per result, and the flag \<open>all_passed\<close>.\<close>

fun report_results :: "result list \<Rightarrow> bool \<Rightarrow> world \<Rightarrow> bool \<times> world" where
  "report_results [] all_passed w = (all_passed, w)"
| "report_results (r # rest) all_passed w =
     (case r of (filename, success, message) \<Rightarrow>
        report_results rest (if \<not> success then False else all_passed)
          (py_print (report_line (filename, success, message)) w))"

text \<open>\<open>main\<close> returns 0 or 1, leaves through \<open>sys.exit(1)\<close>, or is left by an exception
  that nothing catches.\<close>

datatype 'a outcome = Returned 'a | SystemExit int | Uncaught exn

definition print_banner :: "world \<Rightarrow> world" where
  "print_banner w =
     py_print (replicate 60 61) (py_print msg_title (py_print (replicate 60 61) w))"

definition main :: "'j runtime \<Rightarrow> path \<Rightarrow> world \<Rightarrow> int outcome \<times> world" where
  "main rt CONFIG_DIR w =
     (case load_schema rt CONFIG_DIR (print_banner w) of
        (Inl e, w1) \<Rightarrow> (SystemExit 1, py_print (msg_schema_failed @ str_exn rt e) w1)
      | (Inr schema, w1) \<Rightarrow>
          (let w2 = py_print (msg_schema_loaded @ path_name (SCHEMA_FILE CONFIG_DIR) @ [10]) w1 in
           case validate_files rt CONFIG_DIR schema MIRROR_FILES [] w2 of
             (Inl e, w3) \<Rightarrow> (Uncaught e, w3)
           | (Inr results, w3) \<Rightarrow>
               (let w4 = py_print (replicate 60 45) (py_print msg_results w3) in
                case report_results results True w4 of
                  (all_passed, w5) \<Rightarrow>
                    (let w6 = py_print (replicate 60 45) w5 in
                     if all_passed then (Returned 0, py_print msg_all_passed w6)
                     else (Returned 1, py_print msg_some_failed w6)))))"

text \<open>
  The \<open>__main__\<close> block, \<open>sys.exit(main())\<close>: the exit status of the process. The
  interpreter ends with status 1 on an exception that nothing catches.
\<close>

definition script :: "'j runtime \<Rightarrow> path \<Rightarrow> world \<Rightarrow> int \<times> world" where
  "script rt CONFIG_DIR w =
     (case main rt CONFIG_DIR w of
        (Returned status, w') \<Rightarrow> (status, w')
      | (SystemExit status, w') \<Rightarrow> (status, w')
      | (Uncaught e, w') \<Rightarrow> (1, w'))"

subsection \<open>Read accesses\<close>

text \<open>An access that leaves the filesystem as it is: an existence test, or an \<open>open\<close>
  for reading.\<close>

definition read_only :: "event \<Rightarrow> bool" where
  "read_only e = (case e of EvExists p \<Rightarrow> True | EvOpen p m \<Rightarrow> m = R)"

text \<open>The loop stops at the first exception: the results of a list of steps.\<close>

fun first_error :: "(exn + 'a) list \<Rightarrow> exn + 'a list" where
  "first_error [] = Inr []"
| "first_error (Inl e # xs) = Inl e"
| "first_error (Inr x # xs) = (case first_error xs of Inl e \<Rightarrow> Inl e | Inr ys \<Rightarrow> Inr (x # ys))"

subsection \<open>A small instance\<close>

text \<open>
  An instance for evaluating the script: JSON values are natural numbers, a text parses
  to its length minus one (the empty text does not parse), the schema 0 is not a schema,
  and a value conforms to a schema above it. The world holds the schema file and the
  five target files; its two parameters are the nodes of the schema file and of
  \<open>npm_mirror.json\<close>, the other four targets hold the text \<open>1\<close>. \<open>repr\<close> is the
  one of a string without apostrophe, backslash or control character.
\<close>

definition example_rt :: "nat runtime" where
  "example_rt =
     \<lparr>py_repr = (\<lambda>s. [39] @ s @ [39]),
      json_loads = (\<lambda>t.
         if t = [] then Inl (JSONDecodeError (ascii ''Expecting value: line 1 column 1 (char 0)''))
         else Inr (length t - 1)),
      jsonschema_validate = (\<lambda>data schema.
         if schema = 0 then Inl (SchemaError (ascii ''0 is not a schema''))
         else if data < schema then Inr ()
         else Inl (ValidationError (ascii ''too long'') [] (ascii ''; failed validating'')))\<rparr>"

definition example_dir :: path where
  "example_dir = [ascii ''repo'', ascii ''configs'']"

definition example_world :: "fnode option \<Rightarrow> fnode option \<Rightarrow> world" where
  "example_world schema_node npm_node =
     \<lparr>files = (\<lambda>p. if p = SCHEMA_FILE example_dir then schema_node
                    else if p = joinpath example_dir (ascii ''npm_mirror.json'') then npm_node
                    else if p \<in> set (map (joinpath example_dir) MIRROR_FILES) then Some (Text [49])
                    else None),
      stdout = [], fslog = []\<rparr>"

subsection \<open>The scenario of the specification\<close>

text \<open>
  The concrete scenario of the specification: the schema requires the top-level
  property \<open>registry\<close>, a string. JSON values are a small datatype. The instance below
  gives \<open>json.loads\<close> and \<open>jsonschema.validate\<close> on the documents of the scenario only, as
  the two libraries behave on them:
  \<^item> the parser reads the schema, the empty schema, an object whose \<open>registry\<close> is the
    number 123, an object whose \<open>registry\<close> is a URL, and the text \<open>NaN\<close>, which Python's
    parser accepts as a float although it is outside the JSON grammar; it rejects the
    empty text;
  \<^item> the validator accepts everything against the empty schema and the URL object
    against the registry schema; for the number it raises \<open>ValidationError\<close> with the
    message \<open>123 is not of type 'string'\<close> and the path \<open>registry\<close>.

  Any other argument is outside the scenario and does not occur below.
\<close>

datatype json =
    JNumber int
  | JNaN
  | JString pystr
  | JArray "json list"
  | JObject "(pystr \<times> json) list"

definition registry_schema_text :: pystr where
  "registry_schema_text =
     ascii ''{'' @ [34] @ ascii ''type'' @ [34] @ ascii '': '' @ [34] @ ascii ''object'' @
     [34] @ ascii '', '' @ [34] @ ascii ''required'' @ [34] @ ascii '': ['' @ [34] @
     ascii ''registry'' @ [34] @ ascii ''], '' @ [34] @ ascii ''properties'' @ [34] @
     ascii '': {'' @ [34] @ ascii ''registry'' @ [34] @ ascii '': {'' @ [34] @
     ascii ''type'' @ [34] @ ascii '': '' @ [34] @ ascii ''string'' @ [34] @ ascii ''}}}''"

definition registry_schema :: json where
  "registry_schema =
     JObject
       [(ascii ''type'', JString (ascii ''object'')),
        (ascii ''required'', JArray [JString (ascii ''registry'')]),
        (ascii ''properties'',
         JObject [(ascii ''registry'', JObject [(ascii ''type'', JString (ascii ''string''))])])]"

definition registry_number_text :: pystr where
  "registry_number_text = ascii ''{'' @ [34] @ ascii ''registry'' @ [34] @ ascii '': 123}''"

definition registry_number :: json where
  "registry_number = JObject [(ascii ''registry'', JNumber 123)]"

definition registry_url_text :: pystr where
  "registry_url_text =
     ascii ''{'' @ [34] @ ascii ''registry'' @ [34] @ ascii '': '' @ [34] @
     ascii ''https://example.com'' @ [34] @ ascii ''}''"

definition registry_url :: json where
  "registry_url = JObject [(ascii ''registry'', JString (ascii ''https://example.com''))]"

definition not_a_string_message :: pystr where
  "not_a_string_message = ascii ''123 is not of type '' @ [39] @ ascii ''string'' @ [39]"

definition not_a_string_details :: pystr where
  "not_a_string_details =
     [10, 10] @ ascii ''Failed validating '' @ [39] @ ascii ''type'' @ [39] @
     ascii '' in schema['' @ [39] @ ascii ''properties'' @ [39] @ ascii '']['' @ [39] @
     ascii ''registry'' @ [39] @ ascii '']:'' @ [10] @ ascii ''    {'' @ [39] @
     ascii ''type'' @ [39] @ ascii '': '' @ [39] @ ascii ''string'' @ [39] @ ascii ''}'' @
     [10, 10] @ ascii ''On instance['' @ [39] @ ascii ''registry'' @ [39] @ ascii '']:'' @
     [10] @ ascii ''    123''"

definition scenario_rt :: "json runtime" where
  "scenario_rt =
     \<lparr>py_repr = (\<lambda>s. [39] @ s @ [39]),
      json_loads = (\<lambda>t.
         if t = registry_schema_text then Inr registry_schema
         else if t = ascii ''{}'' then Inr (JObject [])
         else if t = registry_number_text then Inr registry_number
         else if t = registry_url_text then Inr registry_url
         else if t = ascii ''NaN'' then Inr JNaN
         else Inl (JSONDecodeError (ascii ''Expecting value: line 1 column 1 (char 0)''))),
      jsonschema_validate = (\<lambda>data schema.
         if schema = JObject [] then Inr ()
         else if schema = registry_schema \<and> data = registry_url then Inr ()
         else if schema = registry_schema \<and> data = registry_number
           then Inl (ValidationError not_a_string_message [ascii ''registry'']
                       not_a_string_details)
         else Inl (OtherException (ascii ''outside the scenario'')))\<rparr>"

definition scenario_dir :: path where
  "scenario_dir = [[], ascii ''repo'', ascii ''configs'']"

text \<open>A directory holding the schema file with the given text and the five target
  files with the given nodes, in the order of \<open>MIRROR_FILES\<close>; nothing printed or
  accessed yet.\<close>

definition config_world :: "path \<Rightarrow> pystr \<Rightarrow> fnode list \<Rightarrow> world" where
  "config_world d schema_text nodes =
     \<lparr>files = (\<lambda>p. if p \<noteq> [] \<and> butlast p = d
                    then map_of ((ascii ''ToolsConfiguration.schema.json'', Text schema_text) #
                                 zip MIRROR_FILES nodes) (last p)
                    else None),
      stdout = [], fslog = []\<rparr>"

definition permission_denied :: exn where
  "permission_denied =
     PermissionError
       (ascii ''[Errno 13] Permission denied: '' @ [39] @ ascii ''/repo/configs/brew_mirror.json'' @ [39])"

subsection \<open>The words of two claims\<close>

text \<open>
  "The message names the offending property or path": every name on the path of the
  error occurs in the message.
\<close>

fun occurs_in :: "pystr \<Rightarrow> pystr \<Rightarrow> bool" where
  "occurs_in xs [] = (xs = [])"
| "occurs_in xs (y # ys) = (take (length xs) (y # ys) = xs \<or> occurs_in xs ys)"

definition names_path :: "pystr \<Rightarrow> pystr list \<Rightarrow> bool" where
  "names_path message pth = list_all (\<lambda>name. occurs_in name message) pth"

text \<open>
  "Syntactically valid JSON": by RFC 8259 a JSON text is one value between optional
  whitespace, and a value begins with a brace, a bracket, a double quote, a minus sign,
  a digit, or the first letter of \<open>true\<close>, \<open>false\<close> or \<open>null\<close>. The predicate is this
  necessary condition: a text that fails it is not JSON.
\<close>

definition json_whitespace :: "nat \<Rightarrow> bool" where
  "json_whitespace c = (c = 32 \<or> c = 9 \<or> c = 10 \<or> c = 13)"

definition json_value_start :: "nat \<Rightarrow> bool" where
  "json_value_start c =
     (c = 123 \<or> c = 91 \<or> c = 34 \<or> c = 45 \<or> (48 \<le> c \<and> c \<le> 57) \<or>
      c = 116 \<or> c = 102 \<or> c = 110)"

definition begins_like_json :: "pystr \<Rightarrow> bool" where
  "begins_like_json txt =
     (case dropWhile json_whitespace txt of [] \<Rightarrow> False | c # cs \<Rightarrow> json_value_start c)"

subsection \<open>Four directories\<close>

text \<open>
  The directory of the scenario, where \<open>npm_mirror.json\<close> holds the number and the
  other four targets the URL; the same directory where \<open>brew_mirror.json\<close> is a link on
  which \<open>stat\<close> is refused; the same where \<open>brew_mirror.json\<close> exists and \<open>open\<close> is
  refused; and a directory whose schema is the empty schema and whose five targets
  hold the text \<open>NaN\<close>.
\<close>

definition scenario_world :: world where
  "scenario_world =
     config_world scenario_dir registry_schema_text
       [Text registry_url_text, Text registry_url_text, Text registry_number_text,
        Text registry_url_text, Text registry_url_text]"

definition blocked_world :: world where
  "blocked_world =
     config_world scenario_dir registry_schema_text
       [Inaccessible permission_denied, Text registry_url_text, Text registry_number_text,
        Text registry_url_text, Text registry_url_text]"

definition unreadable_world :: world where
  "unreadable_world =
     config_world scenario_dir registry_schema_text
       [Unreadable permission_denied, Text registry_url_text, Text registry_number_text,
        Text registry_url_text, Text registry_url_text]"

definition nan_world :: world where
  "nan_world =
     config_world scenario_dir (ascii ''{}'')
       [Text (ascii ''NaN''), Text (ascii ''NaN''), Text (ascii ''NaN''),
        Text (ascii ''NaN''), Text (ascii ''NaN'')]"

section \<open>Properties\<close>

subsection \<open>The first error of a list of steps\<close>

lemma first_error_map_Inr: "first_error (map Inr ys) = Inr ys"
  by (induction ys) simp_all

lemma first_error_Inr_D: "first_error xs = Inr ys \<Longrightarrow> xs = map Inr ys"
proof (induction xs arbitrary: ys)
  case Nil
  then show ?case by simp
next
  case (Cons x xs)
  show ?case
  proof (cases x)
    case (Inl e)
    then show ?thesis using Cons.prems by simp
  next
    case (Inr r)
    then obtain zs where z: "first_error xs = Inr zs" and y: "ys = r # zs"
      using Cons.prems by (auto split: sum.splits)
    then show ?thesis using Cons.IH[OF z] Inr by simp
  qed
qed

lemma first_error_all:
  "(\<exists>rs. first_error (map f xs) = Inr rs \<and> (\<forall>r\<in>set rs. Q r)) \<longleftrightarrow>
   (\<forall>x\<in>set xs. \<exists>r. f x = Inr r \<and> Q r)"
proof (induction xs)
  case Nil
  show ?case by simp
next
  case (Cons a xs)
  show ?case
  proof (cases "f a")
    case (Inl e)
    then show ?thesis by simp
  next
    case (Inr r)
    have "(\<exists>rs. first_error (map f (a # xs)) = Inr rs \<and> (\<forall>r\<in>set rs. Q r)) \<longleftrightarrow>
          Q r \<and> (\<exists>rs. first_error (map f xs) = Inr rs \<and> (\<forall>r\<in>set rs. Q r))"
      by (auto simp: Inr split: sum.splits)
    also have "\<dots> \<longleftrightarrow> Q r \<and> (\<forall>x\<in>set xs. \<exists>r. f x = Inr r \<and> Q r)"
      using Cons.IH by simp
    also have "\<dots> \<longleftrightarrow> (\<forall>x\<in>set (a # xs). \<exists>r. f x = Inr r \<and> Q r)"
      by (simp add: Inr)
    finally show ?thesis .
  qed
qed

subsection \<open>Each operation reads one file and changes only the log\<close>

lemma validate_file_snd:
  "snd (validate_file rt schema p w) = w\<lparr>fslog := fslog w @ [EvOpen p R]\<rparr>"
  by (simp add: validate_file_def split: option.splits fnode.splits sum.splits)

lemma validate_file_fst_cong:
  "files w p = files w' p \<Longrightarrow>
   fst (validate_file rt schema p w) = fst (validate_file rt schema p w')"
  by (simp add: validate_file_def split: option.splits fnode.splits sum.splits)

lemma load_schema_snd:
  "snd (load_schema rt d w) = w\<lparr>fslog := fslog w @ [EvOpen (SCHEMA_FILE d) R]\<rparr>"
  by (simp add: load_schema_def split: option.splits fnode.splits sum.splits)

lemma load_schema_fst_cong:
  "files w (SCHEMA_FILE d) = files w' (SCHEMA_FILE d) \<Longrightarrow>
   fst (load_schema rt d w) = fst (load_schema rt d w')"
  by (simp add: load_schema_def split: option.splits fnode.splits sum.splits)

lemma load_schema_fst:
  "fst (load_schema rt d w) =
     (case files w (SCHEMA_FILE d) of
        None \<Rightarrow> Inl (FileNotFoundError (SCHEMA_FILE d))
      | Some (Inaccessible e) \<Rightarrow> Inl e
      | Some (Unreadable e) \<Rightarrow> Inl e
      | Some (Text t) \<Rightarrow> json_loads rt t)"
  by (simp add: load_schema_def split: option.splits fnode.splits sum.splits)


lemma validate_file_fst:
  "fst (validate_file rt schema p w) =
     (case files w p of
        None \<Rightarrow> validate_file_except rt (FileNotFoundError p)
      | Some (Inaccessible e) \<Rightarrow> validate_file_except rt e
      | Some (Unreadable e) \<Rightarrow> validate_file_except rt e
      | Some (Text t) \<Rightarrow>
          (case json_loads rt t of
             Inl e \<Rightarrow> validate_file_except rt e
           | Inr data \<Rightarrow>
               (case jsonschema_validate rt data schema of
                  Inl e \<Rightarrow> validate_file_except rt e
                | Inr u \<Rightarrow> (True, msg_passed))))"
  by (simp add: validate_file_def split: option.splits fnode.splits sum.splits)

lemma main_loop_body_snd:
  "snd (main_loop_body rt d schema fn w) =
     w\<lparr>fslog := fslog w @ EvExists (joinpath d fn) #
        (case files w (joinpath d fn) of
           None \<Rightarrow> []
         | Some (Inaccessible e) \<Rightarrow> []
         | Some (Unreadable e) \<Rightarrow> [EvOpen (joinpath d fn) R]
         | Some (Text t) \<Rightarrow> [EvOpen (joinpath d fn) R])\<rparr>"
  using validate_file_snd[of rt schema "joinpath d fn"
          "w\<lparr>fslog := fslog w @ [EvExists (joinpath d fn)]\<rparr>"]
  by (auto simp: main_loop_body_def path_exists_def Let_def
           split: prod.splits bool.splits option.splits fnode.splits sum.splits)

lemma main_loop_body_fst:
  "fst (main_loop_body rt d schema fn w) =
     (case files w (joinpath d fn) of
        None \<Rightarrow> Inr (fn, False, msg_missing)
      | Some (Inaccessible e) \<Rightarrow> Inl e
      | Some (Unreadable e) \<Rightarrow> Inr (fn, validate_file_except rt e)
      | Some (Text t) \<Rightarrow>
          Inr (fn,
            case json_loads rt t of
              Inl e \<Rightarrow> validate_file_except rt e
            | Inr data \<Rightarrow>
                (case jsonschema_validate rt data schema of
                   Inl e \<Rightarrow> validate_file_except rt e
                 | Inr u \<Rightarrow> (True, msg_passed))))"
  by (auto simp: main_loop_body_def path_exists_def validate_file_def Let_def
           split: option.splits fnode.splits sum.splits prod.splits bool.splits)

lemma main_loop_body_fst_cong:
  "files w (joinpath d fn) = files w' (joinpath d fn) \<Longrightarrow>
   fst (main_loop_body rt d schema fn w) = fst (main_loop_body rt d schema fn w')"
  by (simp add: main_loop_body_fst)

lemma main_loop_body_files: "files (snd (main_loop_body rt d schema fn w)) = files w"
  by (simp add: main_loop_body_snd)

lemma main_loop_body_filename:
  "fst (main_loop_body rt d schema fn w) = Inr r \<Longrightarrow> fst r = fn"
  by (auto simp: main_loop_body_fst split: option.splits fnode.splits)

lemma validate_files_fst:
  "fst (validate_files rt d schema fns rs w) =
     (case first_error (map (\<lambda>fn. fst (main_loop_body rt d schema fn w)) fns) of
        Inl e \<Rightarrow> Inl e
      | Inr xs \<Rightarrow> Inr (rs @ xs))"
proof (induction fns arbitrary: rs w)
  case Nil
  show ?case by simp
next
  case (Cons fn fns)
  obtain x w' where b: "main_loop_body rt d schema fn w = (x, w')"
    by (cases "main_loop_body rt d schema fn w")
  have fw: "files w' = files w"
    using main_loop_body_files[of rt d schema fn w] b by simp
  have same: "\<And>f. fst (main_loop_body rt d schema f w') = fst (main_loop_body rt d schema f w)"
    by (rule main_loop_body_fst_cong) (simp add: fw)
  show ?case
  proof (cases x)
    case (Inl e)
    then show ?thesis using b by simp
  next
    case (Inr r)
    then show ?thesis
      using b Cons.IH[of "rs @ [r]" w'] by (simp add: same split: sum.splits)
  qed
qed

lemma validate_files_snd:
  "\<exists>evs. snd (validate_files rt d schema fns rs w) = w\<lparr>fslog := fslog w @ evs\<rparr> \<and>
         list_all read_only evs"
proof (induction fns arbitrary: rs w)
  case Nil
  show ?case by (rule exI[of _ "[]"]) simp
next
  case (Cons fn fns)
  obtain x w' where b: "main_loop_body rt d schema fn w = (x, w')"
    by (cases "main_loop_body rt d schema fn w")
  define ev1 where "ev1 = EvExists (joinpath d fn) #
        (case files w (joinpath d fn) of
           None \<Rightarrow> []
         | Some (Inaccessible e) \<Rightarrow> []
         | Some (Unreadable e) \<Rightarrow> [EvOpen (joinpath d fn) R]
         | Some (Text t) \<Rightarrow> [EvOpen (joinpath d fn) R])"
  have w': "w' = w\<lparr>fslog := fslog w @ ev1\<rparr>"
    using main_loop_body_snd[of rt d schema fn w] b by (simp add: ev1_def)
  have r1: "list_all read_only ev1"
    by (simp add: ev1_def read_only_def split: option.splits fnode.splits)
  show ?case
  proof (cases x)
    case (Inl e)
    then have "snd (validate_files rt d schema (fn # fns) rs w) = w\<lparr>fslog := fslog w @ ev1\<rparr>"
      using b w' by simp
    then show ?thesis using r1 by blast
  next
    case (Inr r)
    obtain evs where e: "snd (validate_files rt d schema fns (rs @ [r]) w') =
                           w'\<lparr>fslog := fslog w' @ evs\<rparr>"
      and r2: "list_all read_only evs"
      using Cons.IH[of "rs @ [r]" w'] by blast
    have "snd (validate_files rt d schema (fn # fns) rs w) = w'\<lparr>fslog := fslog w' @ evs\<rparr>"
      by (simp add: b Inr e)
    then have "snd (validate_files rt d schema (fn # fns) rs w) =
                 w\<lparr>fslog := fslog w @ (ev1 @ evs)\<rparr>"
      by (simp add: w')
    moreover have "list_all read_only (ev1 @ evs)"
      by (simp add: r1 r2)
    ultimately show ?thesis by blast
  qed
qed

lemma validate_files_fst_cong:
  assumes "files w = files w'"
  shows "fst (validate_files rt d schema fns rs w) = fst (validate_files rt d schema fns rs w')"
proof -
  have "\<And>fn. fst (main_loop_body rt d schema fn w) = fst (main_loop_body rt d schema fn w')"
    by (rule main_loop_body_fst_cong) (simp add: assms)
  then show ?thesis by (simp add: validate_files_fst)
qed

lemma loop_stops_at_inaccessible:
  assumes "files w (joinpath d fn) = Some (Inaccessible e)"
  shows "validate_files rt d schema (fn # rest) rs w =
           (Inl e, w\<lparr>fslog := fslog w @ [EvExists (joinpath d fn)]\<rparr>)"
proof -
  have "main_loop_body rt d schema fn w =
          (Inl e, w\<lparr>fslog := fslog w @ [EvExists (joinpath d fn)]\<rparr>)"
    using main_loop_body_fst[of rt d schema fn w] main_loop_body_snd[of rt d schema fn w]
    by (simp add: prod_eq_iff assms)
  then show ?thesis by simp
qed

lemma report_results_eq:
  "report_results rs ap w =
     (ap \<and> (\<forall>r\<in>set rs. fst (snd r)), w\<lparr>stdout := stdout w @ map report_line rs\<rparr>)"
proof (induction rs arbitrary: ap w)
  case Nil
  show ?case by simp
next
  case (Cons r rs)
  show ?case
    by (cases r) (auto simp: Cons.IH py_print_def)
qed

subsection \<open>The results of the first loop\<close>

lemma results_member:
  assumes "fst (validate_files rt d schema fns [] w) = Inr rs"
    and "fn \<in> set fns"
    and "fst (main_loop_body rt d schema fn w) = Inr r"
  shows "r \<in> set rs"
proof -
  have "first_error (map (\<lambda>fn. fst (main_loop_body rt d schema fn w)) fns) = Inr rs"
    using assms(1) by (simp add: validate_files_fst split: sum.splits)
  then have m: "map (\<lambda>fn. fst (main_loop_body rt d schema fn w)) fns = map Inr rs"
    by (rule first_error_Inr_D)
  have "fst (main_loop_body rt d schema fn w) \<in>
          set (map (\<lambda>fn. fst (main_loop_body rt d schema fn w)) fns)"
    using assms(2) by simp
  then have "(Inr r :: exn + result) \<in> Inr ` set rs"
    unfolding m assms(3) by simp
  then show ?thesis by (rule imageE) simp
qed

lemma results_all:
  "(\<exists>rs. fst (validate_files rt d schema fns [] w) = Inr rs \<and> (\<forall>r\<in>set rs. Q r)) \<longleftrightarrow>
   (\<forall>fn\<in>set fns. \<exists>r. fst (main_loop_body rt d schema fn w) = Inr r \<and> Q r)"
proof -
  have "(\<exists>rs. fst (validate_files rt d schema fns [] w) = Inr rs \<and> (\<forall>r\<in>set rs. Q r)) \<longleftrightarrow>
        (\<exists>rs. first_error (map (\<lambda>fn. fst (main_loop_body rt d schema fn w)) fns) = Inr rs \<and>
              (\<forall>r\<in>set rs. Q r))"
    by (auto simp: validate_files_fst split: sum.splits)
  then show ?thesis
    by (simp only: first_error_all)
qed

lemma results_filenames:
  assumes "fst (validate_files rt d schema fns [] w) = Inr rs"
  shows "map fst rs = fns"
proof -
  have "first_error (map (\<lambda>fn. fst (main_loop_body rt d schema fn w)) fns) = Inr rs"
    using assms by (simp add: validate_files_fst split: sum.splits)
  then have m: "map (\<lambda>fn. fst (main_loop_body rt d schema fn w)) fns = map Inr rs"
    by (rule first_error_Inr_D)
  have len: "length rs = length fns"
    using arg_cong[OF m, of length] by simp
  show ?thesis
  proof (rule nth_equalityI)
    show "length (map fst rs) = length fns" by (simp add: len)
  next
    fix i
    assume "i < length (map fst rs)"
    then have i: "i < length fns" by (simp add: len)
    have "fst (main_loop_body rt d schema (fns ! i) w) = Inr (rs ! i)"
      using arg_cong[OF m, of "\<lambda>xs. xs ! i"] i len by simp
    then have "fst (rs ! i) = fns ! i"
      by (rule main_loop_body_filename)
    then show "map fst rs ! i = fns ! i"
      using i len by simp
  qed
qed

subsection \<open>The run of main\<close>

lemma print_banner_eq:
  "print_banner w = w\<lparr>stdout := stdout w @ [replicate 60 61, msg_title, replicate 60 61]\<rparr>"
  by (simp add: print_banner_def py_print_def)

lemma load_schema_banner:
  "fst (load_schema rt d (print_banner w)) = fst (load_schema rt d w)"
  by (rule load_schema_fst_cong) (simp add: print_banner_eq)

lemma path_name_joinpath: "path_name (joinpath p c) = c"
  unfolding joinpath_def by (induction p rule: path_name.induct) simp_all

lemma main_schema_failed:
  assumes "fst (load_schema rt d w) = Inl e"
  shows "main rt d w =
           (SystemExit 1,
            w\<lparr>stdout := stdout w @ [replicate 60 61, msg_title, replicate 60 61,
                                     msg_schema_failed @ str_exn rt e],
              fslog := fslog w @ [EvOpen (SCHEMA_FILE d) R]\<rparr>)"
proof -
  have "load_schema rt d (print_banner w) =
          (Inl e, (print_banner w)\<lparr>fslog := fslog (print_banner w) @ [EvOpen (SCHEMA_FILE d) R]\<rparr>)"
    using assms load_schema_banner[of rt d w] load_schema_snd[of rt d "print_banner w"]
    by (simp add: prod_eq_iff)
  then show ?thesis
    by (simp add: main_def print_banner_eq py_print_def)
qed

lemma main_after_load:
  assumes "fst (load_schema rt d w) = Inr schema"
  shows "main rt d w =
           (case validate_files rt d schema MIRROR_FILES []
                   (w\<lparr>stdout := stdout w @ [replicate 60 61, msg_title, replicate 60 61,
                          msg_schema_loaded @ path_name (SCHEMA_FILE d) @ [10]],
                      fslog := fslog w @ [EvOpen (SCHEMA_FILE d) R]\<rparr>) of
              (Inl e, w3) \<Rightarrow> (Uncaught e, w3)
            | (Inr results, w3) \<Rightarrow>
                (let w4 = py_print (replicate 60 45) (py_print msg_results w3) in
                 case report_results results True w4 of
                   (all_passed, w5) \<Rightarrow>
                     (let w6 = py_print (replicate 60 45) w5 in
                      if all_passed then (Returned 0, py_print msg_all_passed w6)
                      else (Returned 1, py_print msg_some_failed w6))))"
proof -
  define w1 where
    "w1 = (print_banner w)\<lparr>fslog := fslog (print_banner w) @ [EvOpen (SCHEMA_FILE d) R]\<rparr>"
  have ld: "load_schema rt d (print_banner w) = (Inr schema, w1)"
    using assms load_schema_banner[of rt d w] load_schema_snd[of rt d "print_banner w"]
    by (simp add: prod_eq_iff w1_def)
  have w2: "py_print (msg_schema_loaded @ path_name (SCHEMA_FILE d) @ [10]) w1 =
          w\<lparr>stdout := stdout w @ [replicate 60 61, msg_title, replicate 60 61,
                          msg_schema_loaded @ path_name (SCHEMA_FILE d) @ [10]],
            fslog := fslog w @ [EvOpen (SCHEMA_FILE d) R]\<rparr>"
    by (simp add: w1_def py_print_def print_banner_eq)
  show ?thesis
    unfolding main_def ld prod.case sum.case Let_def w2 ..
qed

lemma main_loop_raised:
  assumes "fst (load_schema rt d w) = Inr schema"
    and "fst (validate_files rt d schema MIRROR_FILES [] w) = Inl e"
  shows "fst (main rt d w) = Uncaught e"
    and "stdout (snd (main rt d w)) =
           stdout w @ [replicate 60 61, msg_title, replicate 60 61,
                       msg_schema_loaded @ path_name (SCHEMA_FILE d) @ [10]]"
    and "files (snd (main rt d w)) = files w"
    and "\<exists>evs. fslog (snd (main rt d w)) = fslog w @ evs \<and> list_all read_only evs"
proof -
  define w2 where "w2 = w\<lparr>stdout := stdout w @ [replicate 60 61, msg_title, replicate 60 61,
                          msg_schema_loaded @ path_name (SCHEMA_FILE d) @ [10]],
                      fslog := fslog w @ [EvOpen (SCHEMA_FILE d) R]\<rparr>"
  have f: "files w2 = files w" by (simp add: w2_def)
  have v: "fst (validate_files rt d schema MIRROR_FILES [] w2) = Inl e"
    using assms(2) validate_files_fst_cong[OF f, of rt d schema MIRROR_FILES "[]"] by simp
  obtain evs where w3: "snd (validate_files rt d schema MIRROR_FILES [] w2) =
                          w2\<lparr>fslog := fslog w2 @ evs\<rparr>"
    and ro: "list_all read_only evs"
    using validate_files_snd[of rt d schema MIRROR_FILES "[]" w2] by blast
  have vf: "validate_files rt d schema MIRROR_FILES [] w2 = (Inl e, w2\<lparr>fslog := fslog w2 @ evs\<rparr>)"
    using v w3 by (simp add: prod_eq_iff)
  have mm: "main rt d w = (Uncaught e, w2\<lparr>fslog := fslog w2 @ evs\<rparr>)"
    unfolding main_after_load[OF assms(1)] w2_def[symmetric] vf by simp
  show "fst (main rt d w) = Uncaught e" by (simp add: mm)
  show "stdout (snd (main rt d w)) =
           stdout w @ [replicate 60 61, msg_title, replicate 60 61,
                       msg_schema_loaded @ path_name (SCHEMA_FILE d) @ [10]]"
    by (simp add: mm w2_def)
  show "files (snd (main rt d w)) = files w" by (simp add: mm f)
  have "fslog (snd (main rt d w)) = fslog w @ (EvOpen (SCHEMA_FILE d) R # evs)"
    by (simp add: mm w2_def)
  moreover have "list_all read_only (EvOpen (SCHEMA_FILE d) R # evs)"
    by (simp add: ro read_only_def)
  ultimately show "\<exists>evs. fslog (snd (main rt d w)) = fslog w @ evs \<and> list_all read_only evs"
    by blast
qed

lemma main_schema_loaded:
  assumes "fst (load_schema rt d w) = Inr schema"
    and "fst (validate_files rt d schema MIRROR_FILES [] w) = Inr results"
  shows "fst (main rt d w) = Returned (if \<forall>r\<in>set results. fst (snd r) then 0 else 1)"
    and "stdout (snd (main rt d w)) =
           stdout w @
           [replicate 60 61, msg_title, replicate 60 61,
            msg_schema_loaded @ path_name (SCHEMA_FILE d) @ [10]] @
           [msg_results, replicate 60 45] @
           map report_line results @
           [replicate 60 45,
            if \<forall>r\<in>set results. fst (snd r) then msg_all_passed else msg_some_failed]"
    and "files (snd (main rt d w)) = files w"
    and "\<exists>evs. fslog (snd (main rt d w)) = fslog w @ evs \<and> list_all read_only evs"
proof -
  define w2 where "w2 = w\<lparr>stdout := stdout w @ [replicate 60 61, msg_title, replicate 60 61,
                          msg_schema_loaded @ path_name (SCHEMA_FILE d) @ [10]],
                      fslog := fslog w @ [EvOpen (SCHEMA_FILE d) R]\<rparr>"
  have f: "files w2 = files w" by (simp add: w2_def)
  have v: "fst (validate_files rt d schema MIRROR_FILES [] w2) = Inr results"
    using assms(2) validate_files_fst_cong[OF f, of rt d schema MIRROR_FILES "[]"] by simp
  obtain evs where w3: "snd (validate_files rt d schema MIRROR_FILES [] w2) =
                          w2\<lparr>fslog := fslog w2 @ evs\<rparr>"
    and ro: "list_all read_only evs"
    using validate_files_snd[of rt d schema MIRROR_FILES "[]" w2] by blast
  have vf: "validate_files rt d schema MIRROR_FILES [] w2 =
              (Inr results, w2\<lparr>fslog := fslog w2 @ evs\<rparr>)"
    using v w3 by (simp add: prod_eq_iff)
  define final where
    "final = (if \<forall>r\<in>set results. fst (snd r) then msg_all_passed else msg_some_failed)"
  have mm: "main rt d w =
      (Returned (if \<forall>r\<in>set results. fst (snd r) then 0 else 1),
       w2\<lparr>fslog := fslog w2 @ evs,
          stdout := stdout w2 @ [msg_results, replicate 60 45] @ map report_line results @
                    [replicate 60 45, final]\<rparr>)"
    unfolding main_after_load[OF assms(1)] w2_def[symmetric] vf
    by (simp add: report_results_eq Let_def py_print_def final_def)
  show "fst (main rt d w) = Returned (if \<forall>r\<in>set results. fst (snd r) then 0 else 1)"
    by (simp add: mm)
  show "stdout (snd (main rt d w)) =
           stdout w @
           [replicate 60 61, msg_title, replicate 60 61,
            msg_schema_loaded @ path_name (SCHEMA_FILE d) @ [10]] @
           [msg_results, replicate 60 45] @
           map report_line results @
           [replicate 60 45,
            if \<forall>r\<in>set results. fst (snd r) then msg_all_passed else msg_some_failed]"
    by (simp add: mm w2_def final_def)
  show "files (snd (main rt d w)) = files w"
    by (simp add: mm f)
  have "fslog (snd (main rt d w)) = fslog w @ (EvOpen (SCHEMA_FILE d) R # evs)"
    by (simp add: mm w2_def)
  moreover have "list_all read_only (EvOpen (SCHEMA_FILE d) R # evs)"
    by (simp add: ro read_only_def)
  ultimately show "\<exists>evs. fslog (snd (main rt d w)) = fslog w @ evs \<and> list_all read_only evs"
    by blast
qed

lemma run_output:
  "\<exists>out. stdout (snd (main rt d w)) = stdout w @ out"
proof (cases "fst (load_schema rt d w)")
  case (Inl e)
  then show ?thesis by (simp add: main_schema_failed)
next
  case (Inr schema)
  show ?thesis
  proof (cases "fst (validate_files rt d schema MIRROR_FILES [] w)")
    case (Inl e)
    show ?thesis
      using main_loop_raised(2)[OF Inr Inl] by simp
  next
    case r: (Inr results)
    show ?thesis
      using main_schema_loaded(2)[OF Inr r] by simp
  qed
qed

lemma run_files: "files (snd (main rt d w)) = files w"
proof (cases "fst (load_schema rt d w)")
  case (Inl e)
  then show ?thesis by (simp add: main_schema_failed)
next
  case (Inr schema)
  show ?thesis
  proof (cases "fst (validate_files rt d schema MIRROR_FILES [] w)")
    case (Inl e)
    show ?thesis by (rule main_loop_raised(3)[OF Inr Inl])
  next
    case r: (Inr results)
    show ?thesis by (rule main_schema_loaded(3)[OF Inr r])
  qed
qed

lemma run_accesses:
  "\<exists>evs. fslog (snd (main rt d w)) = fslog w @ evs \<and> list_all read_only evs"
proof (cases "fst (load_schema rt d w)")
  case (Inl e)
  have "fslog (snd (main rt d w)) = fslog w @ [EvOpen (SCHEMA_FILE d) R]"
    by (simp add: main_schema_failed[OF Inl])
  moreover have "list_all read_only [EvOpen (SCHEMA_FILE d) R]"
    by (simp add: read_only_def)
  ultimately show ?thesis by blast
next
  case (Inr schema)
  show ?thesis
  proof (cases "fst (validate_files rt d schema MIRROR_FILES [] w)")
    case (Inl e)
    show ?thesis by (rule main_loop_raised(4)[OF Inr Inl])
  next
    case r: (Inr results)
    show ?thesis by (rule main_schema_loaded(4)[OF Inr r])
  qed
qed

subsection \<open>What decides a result and the exit status\<close>

lemma validate_file_except_fails: "fst (validate_file_except rt e) = False"
  by (cases e) simp_all

lemma validate_file_except_not_True: "validate_file_except rt e \<noteq> (True, m)"
  by (cases e) simp_all

lemma validate_file_except_passed_iff:
  "fst (validate_file_except rt e) \<longleftrightarrow> validate_file_except rt e = (True, msg_passed)"
  by (simp add: validate_file_except_fails validate_file_except_not_True)

lemma main_loop_body_success_iff:
  "(\<exists>r. fst (main_loop_body rt d schema fn w) = Inr r \<and> fst (snd r)) \<longleftrightarrow>
     (\<exists>txt data. files w (joinpath d fn) = Some (Text txt) \<and> json_loads rt txt = Inr data \<and>
                 jsonschema_validate rt data schema = Inr ())"
proof (cases "files w (joinpath d fn)")
  case None
  then show ?thesis by (simp add: main_loop_body_fst)
next
  case (Some node)
  show ?thesis
  proof (cases node)
    case (Inaccessible e)
    then show ?thesis using Some by (simp add: main_loop_body_fst)
  next
    case (Unreadable e)
    then show ?thesis
      using Some by (simp add: main_loop_body_fst validate_file_except_fails)
  next
    case (Text t)
    show ?thesis
    proof (cases "json_loads rt t")
      case (Inl e)
      then show ?thesis
        using Some Text by (simp add: main_loop_body_fst validate_file_except_fails)
    next
      case (Inr data)
      show ?thesis
      proof (cases "jsonschema_validate rt data schema")
        case (Inl e)
        then show ?thesis
          using Some Text Inr by (simp add: main_loop_body_fst validate_file_except_fails)
      next
        case v: (Inr u)
        then show ?thesis
          using Some Text Inr by (simp add: main_loop_body_fst)
      qed
    qed
  qed
qed

lemma main_loop_body_success_passed:
  assumes "fst (main_loop_body rt d schema fn w) = Inr r"
  shows "fst (snd r) \<longleftrightarrow> snd r = (True, msg_passed)"
proof (cases "files w (joinpath d fn)")
  case None
  then show ?thesis using assms by (auto simp: main_loop_body_fst)
next
  case (Some node)
  show ?thesis
  proof (cases node)
    case (Inaccessible e)
    then show ?thesis using assms Some by (simp add: main_loop_body_fst)
  next
    case (Unreadable e)
    then show ?thesis
      using assms Some validate_file_except_passed_iff[of rt e]
      by (auto simp: main_loop_body_fst)
  next
    case (Text t)
    show ?thesis
    proof (cases "json_loads rt t")
      case (Inl e)
      then show ?thesis
        using assms Some Text validate_file_except_passed_iff[of rt e]
        by (auto simp: main_loop_body_fst)
    next
      case (Inr data)
      show ?thesis
      proof (cases "jsonschema_validate rt data schema")
        case (Inl e)
        then show ?thesis
          using assms Some Text Inr validate_file_except_passed_iff[of rt e]
          by (auto simp: main_loop_body_fst)
      next
        case v: (Inr u)
        then show ?thesis
          using assms Some Text Inr by (auto simp: main_loop_body_fst)
      qed
    qed
  qed
qed

lemma script_fst:
  "fst (script rt d w) =
     (case fst (main rt d w) of Returned c \<Rightarrow> c | SystemExit c \<Rightarrow> c | Uncaught e \<Rightarrow> 1)"
  by (simp add: script_def split: prod.splits outcome.splits)

lemma script_snd: "snd (script rt d w) = snd (main rt d w)"
  by (simp add: script_def split: prod.splits outcome.splits)

lemma script_status:
  "fst (script rt d w) =
     (case fst (load_schema rt d w) of
        Inl e \<Rightarrow> 1
      | Inr schema \<Rightarrow>
          (case fst (validate_files rt d schema MIRROR_FILES [] w) of
             Inl e \<Rightarrow> 1
           | Inr results \<Rightarrow> if \<forall>r\<in>set results. fst (snd r) then 0 else 1))"
proof (cases "fst (load_schema rt d w)")
  case (Inl e)
  then show ?thesis
    by (simp add: script_fst main_schema_failed)
next
  case (Inr schema)
  show ?thesis
  proof (cases "fst (validate_files rt d schema MIRROR_FILES [] w)")
    case (Inl e)
    then show ?thesis
      using Inr by (simp add: script_fst main_loop_raised(1))
  next
    case r: (Inr results)
    then show ?thesis
      using Inr by (simp add: script_fst main_schema_loaded(1))
  qed
qed

lemma script_status_01: "fst (script rt d w) = 0 \<or> fst (script rt d w) = 1"
  by (simp add: script_status split: sum.splits)

lemma script_zero_iff:
  "fst (script rt d w) = 0 \<longleftrightarrow>
     (\<exists>schema. fst (load_schema rt d w) = Inr schema \<and>
        (\<forall>fn\<in>set MIRROR_FILES.
           \<exists>r. fst (main_loop_body rt d schema fn w) = Inr r \<and> fst (snd r)))"
proof (cases "fst (load_schema rt d w)")
  case (Inl e)
  then show ?thesis by (simp add: script_status)
next
  case (Inr schema)
  have "fst (script rt d w) = 0 \<longleftrightarrow>
          (\<exists>rs. fst (validate_files rt d schema MIRROR_FILES [] w) = Inr rs \<and>
                (\<forall>r\<in>set rs. fst (snd r)))"
    by (simp add: script_status Inr split: sum.splits)
  then show ?thesis
    by (simp add: Inr results_all)
qed

lemma status_one_if_target_fails:
  assumes "fn \<in> set MIRROR_FILES"
    and "\<And>schema r. fst (main_loop_body rt d schema fn w) = Inr r \<Longrightarrow> \<not> fst (snd r)"
  shows "fst (script rt d w) = 1"
proof -
  have "fst (script rt d w) \<noteq> 0"
  proof
    assume "fst (script rt d w) = 0"
    then obtain schema where
      "\<forall>fn\<in>set MIRROR_FILES.
         \<exists>r. fst (main_loop_body rt d schema fn w) = Inr r \<and> fst (snd r)"
      unfolding script_zero_iff by blast
    then obtain r where "fst (main_loop_body rt d schema fn w) = Inr r" and "fst (snd r)"
      using assms(1) by blast
    then show False using assms(2) by blast
  qed
  then show ?thesis
    using script_status_01[of rt d w] by simp
qed

lemma other_error_is_not_violation: "msg_error @ m \<noteq> msg_validation_failed @ m'"
  by (simp add: msg_error_def msg_validation_failed_def)

subsection \<open>Evaluating the small instance\<close>

lemma example_file_schema:
  "files (example_world sn nn) (SCHEMA_FILE example_dir) = sn"
  by (simp add: example_world_def)

lemma example_file_target:
  "fn \<in> set MIRROR_FILES \<Longrightarrow>
   files (example_world sn nn) (joinpath example_dir fn) =
     (if fn = ascii ''npm_mirror.json'' then nn else Some (Text [49]))"
  by (auto simp: example_world_def SCHEMA_FILE_def joinpath_def MIRROR_FILES_def ascii_def)

lemma example_loads:
  "json_loads example_rt t =
     (if t = [] then Inl (JSONDecodeError (ascii ''Expecting value: line 1 column 1 (char 0)''))
      else Inr (length t - 1))"
  by (simp add: example_rt_def)

lemma example_validate:
  "jsonschema_validate example_rt data schema =
     (if schema = 0 then Inl (SchemaError (ascii ''0 is not a schema''))
      else if data < schema then Inr ()
      else Inl (ValidationError (ascii ''too long'') [] (ascii ''; failed validating'')))"
  by (simp add: example_rt_def)

lemma npm_is_target: "ascii ''npm_mirror.json'' \<in> set MIRROR_FILES"
  by (simp add: MIRROR_FILES_def)

lemma example_load_schema:
  "fst (load_schema example_rt example_dir (example_world (Some (Text [49, 48])) nn)) = Inr 1"
  by (simp add: load_schema_fst example_file_schema example_loads)

lemma example_results:
  "fst (validate_files example_rt example_dir 1 MIRROR_FILES []
          (example_world sn (Some (Text t)))) =
     Inr [(ascii ''brew_mirror.json'', True, msg_passed),
          (ascii ''maven_mirror.json'', True, msg_passed),
          (ascii ''npm_mirror.json'',
             if t = [] then (False, msg_json_error @
                               ascii ''Expecting value: line 1 column 1 (char 0)'')
             else if length t - 1 < 1 then (True, msg_passed)
             else (False, msg_validation_failed @ ascii ''too long'')),
          (ascii ''orbstack_mirror.json'', True, msg_passed),
          (ascii ''python_pip.json'', True, msg_passed)]"
  unfolding validate_files_fst
  by (simp add: main_loop_body_fst example_file_target example_loads example_validate
        MIRROR_FILES_def)
     (simp add: ascii_def)

lemma example_results_missing:
  "fst (validate_files example_rt example_dir 1 MIRROR_FILES []
          (example_world sn None)) =
     Inr [(ascii ''brew_mirror.json'', True, msg_passed),
          (ascii ''maven_mirror.json'', True, msg_passed),
          (ascii ''npm_mirror.json'', False, msg_missing),
          (ascii ''orbstack_mirror.json'', True, msg_passed),
          (ascii ''python_pip.json'', True, msg_passed)]"
  unfolding validate_files_fst
  by (simp add: main_loop_body_fst example_file_target example_loads example_validate
        MIRROR_FILES_def)
     (simp add: ascii_def)

lemma example_results_bad_schema:
  "fst (validate_files example_rt example_dir 0 MIRROR_FILES []
          (example_world sn (Some (Text [49, 48])))) =
     Inr [(ascii ''brew_mirror.json'', False, msg_error @ ascii ''0 is not a schema''),
          (ascii ''maven_mirror.json'', False, msg_error @ ascii ''0 is not a schema''),
          (ascii ''npm_mirror.json'', False, msg_error @ ascii ''0 is not a schema''),
          (ascii ''orbstack_mirror.json'', False, msg_error @ ascii ''0 is not a schema''),
          (ascii ''python_pip.json'', False, msg_error @ ascii ''0 is not a schema'')]"
  unfolding validate_files_fst
  by (simp add: main_loop_body_fst example_file_target example_loads example_validate
        MIRROR_FILES_def)

subsection \<open>Evaluating the scenario\<close>

lemma config_world_file:
  "files (config_world d st nodes) (joinpath d name) =
     map_of ((ascii ''ToolsConfiguration.schema.json'', Text st) # zip MIRROR_FILES nodes) name"
  by (simp add: config_world_def joinpath_def)

lemma config_world_schema: "files (config_world d st nodes) (SCHEMA_FILE d) = Some (Text st)"
  by (simp add: SCHEMA_FILE_def config_world_file)

lemma config_world_targets:
  "files (config_world d st [n0, n1, n2, n3, n4]) (joinpath d (ascii ''brew_mirror.json'')) = Some n0"
  "files (config_world d st [n0, n1, n2, n3, n4]) (joinpath d (ascii ''maven_mirror.json'')) = Some n1"
  "files (config_world d st [n0, n1, n2, n3, n4]) (joinpath d (ascii ''npm_mirror.json'')) = Some n2"
  "files (config_world d st [n0, n1, n2, n3, n4]) (joinpath d (ascii ''orbstack_mirror.json'')) = Some n3"
  "files (config_world d st [n0, n1, n2, n3, n4]) (joinpath d (ascii ''python_pip.json'')) = Some n4"
  by (simp_all add: config_world_file MIRROR_FILES_def ascii_def)

lemmas scenario_texts = registry_schema_text_def registry_number_text_def registry_url_text_def
  ascii_def

lemma scenario_loads:
  "json_loads scenario_rt registry_schema_text = Inr registry_schema"
  "json_loads scenario_rt (ascii ''{}'') = Inr (JObject [])"
  "json_loads scenario_rt registry_number_text = Inr registry_number"
  "json_loads scenario_rt registry_url_text = Inr registry_url"
  "json_loads scenario_rt (ascii ''NaN'') = Inr JNaN"
  by (simp_all add: scenario_rt_def scenario_texts)

lemma scenario_validate:
  "jsonschema_validate scenario_rt data (JObject []) = Inr ()"
  "jsonschema_validate scenario_rt registry_url registry_schema = Inr ()"
  "jsonschema_validate scenario_rt registry_number registry_schema =
     Inl (ValidationError not_a_string_message [ascii ''registry''] not_a_string_details)"
  by (simp_all add: scenario_rt_def registry_schema_def registry_url_def registry_number_def)

lemma scenario_load_schema:
  "fst (load_schema scenario_rt scenario_dir (config_world scenario_dir registry_schema_text nodes)) =
     Inr registry_schema"
  by (simp add: load_schema_fst config_world_schema scenario_loads)

lemma blocked_loop:
  "files w = files blocked_world \<Longrightarrow>
   validate_files scenario_rt scenario_dir registry_schema MIRROR_FILES [] w =
     (Inl permission_denied,
      w\<lparr>fslog := fslog w @ [EvExists (joinpath scenario_dir (ascii ''brew_mirror.json''))]\<rparr>)"
  unfolding MIRROR_FILES_def
  by (rule loop_stops_at_inaccessible) (simp add: blocked_world_def config_world_targets)

lemma scenario_results:
  "fst (validate_files scenario_rt scenario_dir registry_schema MIRROR_FILES []
          scenario_world) =
     Inr [(ascii ''brew_mirror.json'', True, msg_passed),
          (ascii ''maven_mirror.json'', True, msg_passed),
          (ascii ''npm_mirror.json'', False, msg_validation_failed @ not_a_string_message),
          (ascii ''orbstack_mirror.json'', True, msg_passed),
          (ascii ''python_pip.json'', True, msg_passed)]"
  unfolding validate_files_fst MIRROR_FILES_def
  by (simp add: main_loop_body_fst scenario_world_def config_world_targets scenario_loads
        scenario_validate)

section \<open>The claims\<close>

text \<open>
  C1. The exit status of the process is 0 if and only if every target file validates
  successfully, that is, the first loop completes and every result is the passed one;
  otherwise it is 1: when the schema cannot be loaded, and when some target file is
  missing or fails to validate. The first equivalence is over the results, the second
  over the files themselves: the schema file is text that parses, and every target
  file is text that parses to a value which the validator accepts.
\<close>

theorem exit_status_zero_iff_all_passed:
  "(fst (script rt d w) = 0 \<longleftrightarrow>
      (\<exists>schema results. fst (load_schema rt d w) = Inr schema \<and>
         fst (validate_files rt d schema MIRROR_FILES [] w) = Inr results \<and>
         (\<forall>r\<in>set results. snd r = (True, msg_passed)))) \<and>
   (fst (script rt d w) = 0 \<longleftrightarrow>
      (\<exists>stxt schema. files w (SCHEMA_FILE d) = Some (Text stxt) \<and>
         json_loads rt stxt = Inr schema \<and>
         (\<forall>fn\<in>set MIRROR_FILES. \<exists>txt data.
            files w (joinpath d fn) = Some (Text txt) \<and> json_loads rt txt = Inr data \<and>
            jsonschema_validate rt data schema = Inr ()))) \<and>
   (fst (script rt d w) = 0 \<or> fst (script rt d w) = 1)"
proof (intro conjI)
  have passed: "(\<exists>r. fst (main_loop_body rt d s fn w) = Inr r \<and> fst (snd r)) \<longleftrightarrow>
        (\<exists>r. fst (main_loop_body rt d s fn w) = Inr r \<and> snd r = (True, msg_passed))" for s fn
    using main_loop_body_success_passed[of rt d s fn w] by blast
  show "fst (script rt d w) = 0 \<longleftrightarrow>
      (\<exists>schema results. fst (load_schema rt d w) = Inr schema \<and>
         fst (validate_files rt d schema MIRROR_FILES [] w) = Inr results \<and>
         (\<forall>r\<in>set results. snd r = (True, msg_passed)))"
    unfolding script_zero_iff passed
    using results_all[of rt d _ MIRROR_FILES w "\<lambda>r. snd r = (True, msg_passed)"]
    by blast
  show "fst (script rt d w) = 0 \<longleftrightarrow>
      (\<exists>stxt schema. files w (SCHEMA_FILE d) = Some (Text stxt) \<and>
         json_loads rt stxt = Inr schema \<and>
         (\<forall>fn\<in>set MIRROR_FILES. \<exists>txt data.
            files w (joinpath d fn) = Some (Text txt) \<and> json_loads rt txt = Inr data \<and>
            jsonschema_validate rt data schema = Inr ()))"
    unfolding script_zero_iff main_loop_body_success_iff load_schema_fst
    by (auto split: option.splits fnode.splits sum.splits)
  show "fst (script rt d w) = 0 \<or> fst (script rt d w) = 1"
    by (rule script_status_01)
qed

theorem exit_status_witness:
  "fst (script example_rt example_dir
          (example_world (Some (Text [49, 48])) (Some (Text [49])))) = 0 \<and>
   fst (script example_rt example_dir
          (example_world (Some (Text [49, 48])) None)) = 1 \<and>
   fst (script example_rt example_dir
          (example_world (Some (Text [49, 48])) (Some (Text [49, 48, 48])))) = 1 \<and>
   fst (script example_rt example_dir
          (example_world None (Some (Text [49])))) = 1"
proof (intro conjI)
  let ?ok = "example_world (Some (Text [49, 48])) (Some (Text [49]))"
  show "fst (script example_rt example_dir ?ok) = 0"
    using exit_status_zero_iff_all_passed[of example_rt example_dir ?ok, THEN conjunct2]
    by (simp add: example_file_schema example_file_target example_loads example_validate)
next
  let ?w = "example_world (Some (Text [49, 48])) None"
  show "fst (script example_rt example_dir ?w) = 1"
    using exit_status_zero_iff_all_passed[of example_rt example_dir ?w, THEN conjunct2]
      npm_is_target
    by (auto simp: example_file_schema example_file_target example_loads example_validate
             dest!: bspec[where x = "ascii ''npm_mirror.json''"])
next
  let ?w = "example_world (Some (Text [49, 48])) (Some (Text [49, 48, 48]))"
  show "fst (script example_rt example_dir ?w) = 1"
    using exit_status_zero_iff_all_passed[of example_rt example_dir ?w, THEN conjunct2]
      npm_is_target
    by (auto simp: example_file_schema example_file_target example_loads example_validate
             dest!: bspec[where x = "ascii ''npm_mirror.json''"])
next
  let ?w = "example_world None (Some (Text [49]))"
  show "fst (script example_rt example_dir ?w) = 1"
    using exit_status_zero_iff_all_passed[of example_rt example_dir ?w, THEN conjunct2]
    by (auto simp: example_file_schema)
qed



text \<open>
  C3. After a successful schema load, exactly one result is to be produced for each
  of the five filenames, in the order of the list, and reported in that order. The
  script does not do so when the existence test of a target raises: the test stands
  outside the \<open>try\<close> of \<open>validate_file\<close>. In the directory where \<open>stat\<close> is refused on
  \<open>brew_mirror.json\<close> the schema loads, the loop ends with the exception and no
  results, and \<open>main\<close> is left after the four header lines: no line is printed for any
  of the five files.
\<close>

theorem existence_test_exception_loses_results:
  "fst (load_schema scenario_rt scenario_dir blocked_world) = Inr registry_schema \<and>
   fst (validate_files scenario_rt scenario_dir registry_schema MIRROR_FILES [] blocked_world) =
     Inl permission_denied \<and>
   main scenario_rt scenario_dir blocked_world =
     (Uncaught permission_denied,
      blocked_world
        \<lparr>stdout := [replicate 60 61, msg_title, replicate 60 61,
                    msg_schema_loaded @ ascii ''ToolsConfiguration.schema.json'' @ [10]],
          fslog := [EvOpen (SCHEMA_FILE scenario_dir) R,
                    EvExists (joinpath scenario_dir (ascii ''brew_mirror.json''))]\<rparr>)"
proof (intro conjI)
  show l: "fst (load_schema scenario_rt scenario_dir blocked_world) = Inr registry_schema"
    by (simp add: blocked_world_def scenario_load_schema)
  show "fst (validate_files scenario_rt scenario_dir registry_schema MIRROR_FILES []
               blocked_world) = Inl permission_denied"
    by (simp add: blocked_loop)
  have e: "stdout blocked_world = []" "fslog blocked_world = []"
    by (simp_all add: blocked_world_def config_world_def)
  show "main scenario_rt scenario_dir blocked_world =
     (Uncaught permission_denied,
      blocked_world
        \<lparr>stdout := [replicate 60 61, msg_title, replicate 60 61,
                    msg_schema_loaded @ ascii ''ToolsConfiguration.schema.json'' @ [10]],
          fslog := [EvOpen (SCHEMA_FILE scenario_dir) R,
                    EvExists (joinpath scenario_dir (ascii ''brew_mirror.json''))]\<rparr>)"
    unfolding main_after_load[OF l]
    by (simp add: blocked_loop e) (simp add: SCHEMA_FILE_def path_name_joinpath)
qed

text \<open>
  C4. Per-file errors are to be recorded as the result of their file without stopping
  the files after it. The script does so for every error inside \<open>validate_file\<close>, but
  not for an error of the existence test. Where \<open>stat\<close> is refused on
  \<open>brew_mirror.json\<close>, the process ends with status 1 after the existence test of that
  first file: the other four files are never looked at. Where the same error comes from
  \<open>open\<close> instead, it is recorded as the generic error of \<open>brew_mirror.json\<close>, and the
  other four files get their results.
\<close>

theorem existence_test_exception_is_fatal:
  "fst (script scenario_rt scenario_dir blocked_world) = 1 \<and>
   fslog (snd (script scenario_rt scenario_dir blocked_world)) =
     [EvOpen (SCHEMA_FILE scenario_dir) R,
      EvExists (joinpath scenario_dir (ascii ''brew_mirror.json''))] \<and>
   fst (validate_files scenario_rt scenario_dir registry_schema MIRROR_FILES []
          unreadable_world) =
     Inr [(ascii ''brew_mirror.json'', False,
           msg_error @ str_exn scenario_rt permission_denied),
          (ascii ''maven_mirror.json'', True, msg_passed),
          (ascii ''npm_mirror.json'', False, msg_validation_failed @ not_a_string_message),
          (ascii ''orbstack_mirror.json'', True, msg_passed),
          (ascii ''python_pip.json'', True, msg_passed)]"
proof (intro conjI)
  have l: "fst (load_schema scenario_rt scenario_dir blocked_world) = Inr registry_schema"
    by (simp add: blocked_world_def scenario_load_schema)
  have e: "fslog blocked_world = []"
    by (simp add: blocked_world_def config_world_def)
  have m: "main scenario_rt scenario_dir blocked_world =
     (Uncaught permission_denied,
      blocked_world
        \<lparr>stdout := stdout blocked_world @ [replicate 60 61, msg_title, replicate 60 61,
                    msg_schema_loaded @ path_name (SCHEMA_FILE scenario_dir) @ [10]],
          fslog := [EvOpen (SCHEMA_FILE scenario_dir) R,
                    EvExists (joinpath scenario_dir (ascii ''brew_mirror.json''))]\<rparr>)"
    unfolding main_after_load[OF l] by (simp add: blocked_loop e)
  show "fst (script scenario_rt scenario_dir blocked_world) = 1"
    by (simp add: script_fst m)
  show "fslog (snd (script scenario_rt scenario_dir blocked_world)) =
     [EvOpen (SCHEMA_FILE scenario_dir) R,
      EvExists (joinpath scenario_dir (ascii ''brew_mirror.json''))]"
    by (simp add: script_snd m)
  show "fst (validate_files scenario_rt scenario_dir registry_schema MIRROR_FILES []
          unreadable_world) =
     Inr [(ascii ''brew_mirror.json'', False,
           msg_error @ str_exn scenario_rt permission_denied),
          (ascii ''maven_mirror.json'', True, msg_passed),
          (ascii ''npm_mirror.json'', False, msg_validation_failed @ not_a_string_message),
          (ascii ''orbstack_mirror.json'', True, msg_passed),
          (ascii ''python_pip.json'', True, msg_passed)]"
    unfolding validate_files_fst MIRROR_FILES_def
    by (simp add: main_loop_body_fst unreadable_world_def config_world_targets scenario_loads
          scenario_validate permission_denied_def)
qed

text \<open>
  C5. For a target file whose path does not exist, the loop body records the result
  missing, with the message of the script for "file does not exist", without calling
  \<open>validate_file\<close> (the only access is the existence test) and without raising;
  the entry is in the results whenever the loop completes, and the exit status of the
  process is 1.
\<close>

theorem missing_file_result:
  assumes "fn \<in> set MIRROR_FILES" and "files w (joinpath d fn) = None"
  shows "main_loop_body rt d schema fn w =
           (Inr (fn, False, msg_missing), w\<lparr>fslog := fslog w @ [EvExists (joinpath d fn)]\<rparr>) \<and>
         (\<forall>results. fst (validate_files rt d schema MIRROR_FILES [] w) = Inr results \<longrightarrow>
                    (fn, False, msg_missing) \<in> set results) \<and>
         fst (script rt d w) = 1"
proof (intro conjI allI impI)
  have b: "\<And>s. fst (main_loop_body rt d s fn w) = Inr (fn, False, msg_missing)"
    by (simp add: main_loop_body_fst assms(2))
  show "main_loop_body rt d schema fn w =
           (Inr (fn, False, msg_missing), w\<lparr>fslog := fslog w @ [EvExists (joinpath d fn)]\<rparr>)"
    using b[of schema] main_loop_body_snd[of rt d schema fn w]
    by (simp add: prod_eq_iff assms(2))
  show "(fn, False, msg_missing) \<in> set results"
    if "fst (validate_files rt d schema MIRROR_FILES [] w) = Inr results" for results
    using that assms(1) b[of schema] by (rule results_member)
  show "fst (script rt d w) = 1"
    by (rule status_one_if_target_fails[OF assms(1)]) (simp add: b)
qed

theorem missing_file_witness:
  "main_loop_body example_rt example_dir 1 (ascii ''npm_mirror.json'')
     (example_world (Some (Text [49, 48])) None) =
     (Inr (ascii ''npm_mirror.json'', False, msg_missing),
      (example_world (Some (Text [49, 48])) None)
        \<lparr>fslog := [EvExists (joinpath example_dir (ascii ''npm_mirror.json''))]\<rparr>) \<and>
   fst (validate_files example_rt example_dir 1 MIRROR_FILES []
          (example_world (Some (Text [49, 48])) None)) =
     Inr [(ascii ''brew_mirror.json'', True, msg_passed),
          (ascii ''maven_mirror.json'', True, msg_passed),
          (ascii ''npm_mirror.json'', False, msg_missing),
          (ascii ''orbstack_mirror.json'', True, msg_passed),
          (ascii ''python_pip.json'', True, msg_passed)] \<and>
   (ascii ''npm_mirror.json'', False, msg_missing) \<in>
     set [(ascii ''brew_mirror.json'', True, msg_passed),
          (ascii ''maven_mirror.json'', True, msg_passed),
          (ascii ''npm_mirror.json'', False, msg_missing),
          (ascii ''orbstack_mirror.json'', True, msg_passed),
          (ascii ''python_pip.json'', True, msg_passed)] \<and>
   fst (script example_rt example_dir (example_world (Some (Text [49, 48])) None)) = 1"
proof -
  let ?w = "example_world (Some (Text [49, 48])) None"
  have t: "main_loop_body example_rt example_dir 1 (ascii ''npm_mirror.json'') ?w =
           (Inr (ascii ''npm_mirror.json'', False, msg_missing),
            ?w\<lparr>fslog := fslog ?w @
                 [EvExists (joinpath example_dir (ascii ''npm_mirror.json''))]\<rparr>) \<and>
         (\<forall>results. fst (validate_files example_rt example_dir 1 MIRROR_FILES [] ?w) =
                      Inr results \<longrightarrow>
                    (ascii ''npm_mirror.json'', False, msg_missing) \<in> set results) \<and>
         fst (script example_rt example_dir ?w) = 1"
    by (rule missing_file_result[OF npm_is_target])
       (simp add: example_file_target npm_is_target)
  have e: "fslog ?w = []" by (simp add: example_world_def)
  show ?thesis
    using t example_results_missing[of "Some (Text [49, 48])"] by (simp add: e)
qed

text \<open>
  C6, as stated, fails: the message of a schema violation need not name the offending
  property. In the scenario of the specification, \<open>npm_mirror.json\<close> holds the number
  123 under \<open>registry\<close>; the validator's error has the path \<open>registry\<close> and the message
  \<open>123 is not of type 'string'\<close>; the script prints the message only, and the name
  \<open>registry\<close> does not occur in the result.
\<close>

theorem violation_message_omits_path:
  "fst (load_schema scenario_rt scenario_dir scenario_world) = Inr registry_schema \<and>
   files scenario_world (joinpath scenario_dir (ascii ''npm_mirror.json'')) =
     Some (Text registry_number_text) \<and>
   json_loads scenario_rt registry_number_text = Inr registry_number \<and>
   jsonschema_validate scenario_rt registry_number registry_schema =
     Inl (ValidationError not_a_string_message [ascii ''registry''] not_a_string_details) \<and>
   fst (validate_file scenario_rt registry_schema
          (joinpath scenario_dir (ascii ''npm_mirror.json'')) scenario_world) =
     (False, msg_validation_failed @ not_a_string_message) \<and>
   \<not> names_path (msg_validation_failed @ not_a_string_message) [ascii ''registry'']"
proof (intro conjI)
  show "fst (load_schema scenario_rt scenario_dir scenario_world) = Inr registry_schema"
    by (simp add: scenario_world_def scenario_load_schema)
  show "files scenario_world (joinpath scenario_dir (ascii ''npm_mirror.json'')) =
     Some (Text registry_number_text)"
    by (simp add: scenario_world_def config_world_targets)
  show "json_loads scenario_rt registry_number_text = Inr registry_number"
    by (rule scenario_loads)
  show "jsonschema_validate scenario_rt registry_number registry_schema =
     Inl (ValidationError not_a_string_message [ascii ''registry''] not_a_string_details)"
    by (rule scenario_validate)
  show "fst (validate_file scenario_rt registry_schema
          (joinpath scenario_dir (ascii ''npm_mirror.json'')) scenario_world) =
     (False, msg_validation_failed @ not_a_string_message)"
    by (simp add: validate_file_fst scenario_world_def config_world_targets scenario_loads
          scenario_validate)
  show "\<not> names_path (msg_validation_failed @ not_a_string_message) [ascii ''registry'']"
    by (simp add: names_path_def msg_validation_failed_def not_a_string_message_def ascii_def)
qed

text \<open>
  C6, amended. For a target file that parses as JSON and on which the validator raises
  \<open>ValidationError\<close>, the result is the schema violation: not successful, with the
  message made of the violation prefix and the \<open>message\<close> field of the error, whatever
  its path is. The entry is in the results whenever the loop completes, and the exit
  status is 1.
\<close>

theorem schema_violation_result:
  assumes "fst (load_schema rt d w) = Inr schema"
    and "fn \<in> set MIRROR_FILES"
    and "files w (joinpath d fn) = Some (Text txt)"
    and "json_loads rt txt = Inr data"
    and "jsonschema_validate rt data schema = Inl (ValidationError m pth s)"
  shows "fst (validate_file rt schema (joinpath d fn) w) = (False, msg_validation_failed @ m) \<and>
         (\<forall>results. fst (validate_files rt d schema MIRROR_FILES [] w) = Inr results \<longrightarrow>
                    (fn, False, msg_validation_failed @ m) \<in> set results) \<and>
         fst (script rt d w) = 1"
proof (intro conjI allI impI)
  have b: "fst (main_loop_body rt d schema fn w) = Inr (fn, False, msg_validation_failed @ m)"
    by (simp add: main_loop_body_fst assms(3,4,5))
  show "fst (validate_file rt schema (joinpath d fn) w) = (False, msg_validation_failed @ m)"
    by (simp add: validate_file_fst assms(3,4,5))
  show "(fn, False, msg_validation_failed @ m) \<in> set results"
    if "fst (validate_files rt d schema MIRROR_FILES [] w) = Inr results" for results
    using that assms(2) b by (rule results_member)
  show "fst (script rt d w) = 1"
  proof -
    have "\<not> (\<exists>r. fst (main_loop_body rt d schema fn w) = Inr r \<and> fst (snd r))"
      by (simp add: b)
    then have "fst (script rt d w) \<noteq> 0"
      using assms(1,2) unfolding script_zero_iff by auto
    then show ?thesis
      using script_status_01[of rt d w] by simp
  qed
qed

theorem schema_violation_witness:
  "fst (validate_file scenario_rt registry_schema
          (joinpath scenario_dir (ascii ''npm_mirror.json'')) scenario_world) =
     (False, msg_validation_failed @ not_a_string_message) \<and>
   fst (validate_files scenario_rt scenario_dir registry_schema MIRROR_FILES []
          scenario_world) =
     Inr [(ascii ''brew_mirror.json'', True, msg_passed),
          (ascii ''maven_mirror.json'', True, msg_passed),
          (ascii ''npm_mirror.json'', False, msg_validation_failed @ not_a_string_message),
          (ascii ''orbstack_mirror.json'', True, msg_passed),
          (ascii ''python_pip.json'', True, msg_passed)] \<and>
   (ascii ''npm_mirror.json'', False, msg_validation_failed @ not_a_string_message) \<in>
     set [(ascii ''brew_mirror.json'', True, msg_passed),
          (ascii ''maven_mirror.json'', True, msg_passed),
          (ascii ''npm_mirror.json'', False, msg_validation_failed @ not_a_string_message),
          (ascii ''orbstack_mirror.json'', True, msg_passed),
          (ascii ''python_pip.json'', True, msg_passed)] \<and>
   fst (script scenario_rt scenario_dir scenario_world) = 1"
proof -
  have t: "fst (validate_file scenario_rt registry_schema
                  (joinpath scenario_dir (ascii ''npm_mirror.json'')) scenario_world) =
             (False, msg_validation_failed @ not_a_string_message) \<and>
           (\<forall>results. fst (validate_files scenario_rt scenario_dir registry_schema MIRROR_FILES []
                             scenario_world) = Inr results \<longrightarrow>
              (ascii ''npm_mirror.json'', False, msg_validation_failed @ not_a_string_message)
                \<in> set results) \<and>
           fst (script scenario_rt scenario_dir scenario_world) = 1"
    by (rule schema_violation_result[of scenario_rt scenario_dir scenario_world
              registry_schema "ascii ''npm_mirror.json''" registry_number_text
              registry_number not_a_string_message "[ascii ''registry'']"
              not_a_string_details])
       (simp_all add: scenario_world_def scenario_load_schema npm_is_target
          config_world_targets scenario_loads scenario_validate)
  show ?thesis
    using t scenario_results by simp
qed

text \<open>
  C7, as stated, fails: a target file whose text is not JSON need not give a parse
  error. The text \<open>NaN\<close> does not begin like a JSON value, yet Python's parser accepts it;
  against the empty schema the file passes, and where all five targets hold it the
  exit status is 0.
\<close>

theorem nan_file_is_not_a_parse_error:
  "\<not> begins_like_json (ascii ''NaN'') \<and>
   files nan_world (joinpath scenario_dir (ascii ''npm_mirror.json'')) =
     Some (Text (ascii ''NaN'')) \<and>
   fst (load_schema scenario_rt scenario_dir nan_world) = Inr (JObject []) \<and>
   fst (validate_file scenario_rt (JObject [])
          (joinpath scenario_dir (ascii ''npm_mirror.json'')) nan_world) = (True, msg_passed) \<and>
   fst (script scenario_rt scenario_dir nan_world) = 0"
proof (intro conjI)
  show "\<not> begins_like_json (ascii ''NaN'')"
    by (simp add: begins_like_json_def json_whitespace_def json_value_start_def ascii_def)
  show "files nan_world (joinpath scenario_dir (ascii ''npm_mirror.json'')) =
     Some (Text (ascii ''NaN''))"
    by (simp add: nan_world_def config_world_targets)
  show l: "fst (load_schema scenario_rt scenario_dir nan_world) = Inr (JObject [])"
    by (simp add: load_schema_fst nan_world_def config_world_schema scenario_loads)
  show "fst (validate_file scenario_rt (JObject [])
          (joinpath scenario_dir (ascii ''npm_mirror.json'')) nan_world) = (True, msg_passed)"
    by (simp add: validate_file_fst nan_world_def config_world_targets scenario_loads
          scenario_validate)
  have "\<forall>fn\<in>set MIRROR_FILES.
          \<exists>r. fst (main_loop_body scenario_rt scenario_dir (JObject []) fn nan_world) = Inr r \<and>
              fst (snd r)"
    unfolding MIRROR_FILES_def main_loop_body_success_iff
    by (simp add: nan_world_def config_world_targets scenario_loads scenario_validate)
  then show "fst (script scenario_rt scenario_dir nan_world) = 0"
    unfolding script_zero_iff using l by blast
qed

text \<open>
  C7, amended. For an existing target file that is read as text and on which the
  parser raises \<open>JSONDecodeError\<close>, the result is the parse error: not successful, with
  the message made of the parse-error prefix and the diagnostic of the parser. The entry
  is in the results whenever the loop completes, and the exit status is 1, whatever the
  schema is.
\<close>

theorem parse_error_result:
  assumes "fn \<in> set MIRROR_FILES"
    and "files w (joinpath d fn) = Some (Text txt)"
    and "json_loads rt txt = Inl (JSONDecodeError diagnostic)"
  shows "fst (validate_file rt schema (joinpath d fn) w) = (False, msg_json_error @ diagnostic) \<and>
         (\<forall>results. fst (validate_files rt d schema MIRROR_FILES [] w) = Inr results \<longrightarrow>
                    (fn, False, msg_json_error @ diagnostic) \<in> set results) \<and>
         fst (script rt d w) = 1"
proof (intro conjI allI impI)
  have b: "\<And>s. fst (main_loop_body rt d s fn w) = Inr (fn, False, msg_json_error @ diagnostic)"
    by (simp add: main_loop_body_fst assms(2,3))
  show "fst (validate_file rt schema (joinpath d fn) w) = (False, msg_json_error @ diagnostic)"
    by (simp add: validate_file_fst assms(2,3))
  show "(fn, False, msg_json_error @ diagnostic) \<in> set results"
    if "fst (validate_files rt d schema MIRROR_FILES [] w) = Inr results" for results
    using that assms(1) b[of schema] by (rule results_member)
  show "fst (script rt d w) = 1"
    by (rule status_one_if_target_fails[OF assms(1)]) (simp add: b)
qed

theorem parse_error_witness:
  "fst (validate_file example_rt 1 (joinpath example_dir (ascii ''npm_mirror.json''))
          (example_world (Some (Text [49, 48])) (Some (Text [])))) =
     (False, msg_json_error @ ascii ''Expecting value: line 1 column 1 (char 0)'') \<and>
   fst (validate_files example_rt example_dir 1 MIRROR_FILES []
          (example_world (Some (Text [49, 48])) (Some (Text [])))) =
     Inr [(ascii ''brew_mirror.json'', True, msg_passed),
          (ascii ''maven_mirror.json'', True, msg_passed),
          (ascii ''npm_mirror.json'', False,
             msg_json_error @ ascii ''Expecting value: line 1 column 1 (char 0)''),
          (ascii ''orbstack_mirror.json'', True, msg_passed),
          (ascii ''python_pip.json'', True, msg_passed)] \<and>
   (ascii ''npm_mirror.json'', False,
      msg_json_error @ ascii ''Expecting value: line 1 column 1 (char 0)'') \<in>
     set [(ascii ''brew_mirror.json'', True, msg_passed),
          (ascii ''maven_mirror.json'', True, msg_passed),
          (ascii ''npm_mirror.json'', False,
             msg_json_error @ ascii ''Expecting value: line 1 column 1 (char 0)''),
          (ascii ''orbstack_mirror.json'', True, msg_passed),
          (ascii ''python_pip.json'', True, msg_passed)] \<and>
   fst (script example_rt example_dir
          (example_world (Some (Text [49, 48])) (Some (Text [])))) = 1"
proof -
  let ?w = "example_world (Some (Text [49, 48])) (Some (Text []))"
  let ?m = "msg_json_error @ ascii ''Expecting value: line 1 column 1 (char 0)''"
  have t: "fst (validate_file example_rt 1 (joinpath example_dir (ascii ''npm_mirror.json''))
                  ?w) = (False, ?m) \<and>
           (\<forall>results. fst (validate_files example_rt example_dir 1 MIRROR_FILES [] ?w) =
                        Inr results \<longrightarrow>
              (ascii ''npm_mirror.json'', False, ?m) \<in> set results) \<and>
           fst (script example_rt example_dir ?w) = 1"
    by (rule parse_error_result[OF npm_is_target, of ?w example_dir "[]" example_rt
              "ascii ''Expecting value: line 1 column 1 (char 0)''" 1])
       (simp_all add: example_file_target npm_is_target example_loads)
  show ?thesis
    using t example_results[of "Some (Text [49, 48])" "[]"] by simp
qed

text \<open>
  C8. No operation writes to the filesystem. Loading the schema, validating one file
  and the whole run leave every file as it was; every filesystem access of a run is an
  existence test or an \<open>open\<close> for reading; the only other effect is that lines are
  appended to standard output.
\<close>

theorem no_filesystem_writes:
  "files (snd (load_schema rt d w)) = files w \<and>
   files (snd (validate_file rt schema p w)) = files w \<and>
   files (snd (script rt d w)) = files w \<and>
   (\<exists>evs out. fslog (snd (script rt d w)) = fslog w @ evs \<and> list_all read_only evs \<and>
               stdout (snd (script rt d w)) = stdout w @ out)"
proof (intro conjI)
  show "files (snd (load_schema rt d w)) = files w"
    by (simp add: load_schema_snd)
  show "files (snd (validate_file rt schema p w)) = files w"
    by (simp add: validate_file_snd)
  show "files (snd (script rt d w)) = files w"
    by (simp add: script_snd run_files)
  obtain out where out: "stdout (snd (main rt d w)) = stdout w @ out"
    using run_output[of rt d w] by blast
  obtain evs where "fslog (snd (main rt d w)) = fslog w @ evs" and "list_all read_only evs"
    using run_accesses[of rt d w] by blast
  then show "\<exists>evs out. fslog (snd (script rt d w)) = fslog w @ evs \<and> list_all read_only evs \<and>
               stdout (snd (script rt d w)) = stdout w @ out"
    using out by (auto simp: script_snd)
qed

theorem no_filesystem_writes_witness:
  "files (snd (script example_rt example_dir
                 (example_world (Some (Text [49, 48])) (Some (Text [49])))))
     (SCHEMA_FILE example_dir) = Some (Text [49, 48])"
  using no_filesystem_writes[of example_rt example_dir
          "example_world (Some (Text [49, 48])) (Some (Text [49]))"]
  by (simp add: example_file_schema)

text \<open>
  C9. If the schema file parses as JSON but is not a well-formed schema, so that the
  validator raises \<open>SchemaError\<close>, then loading the schema succeeds, \<open>main\<close> is not left
  through \<open>sys.exit\<close>, and the exit status is 1; an existing target file that parses
  gets the generic error result, whose message is the error prefix and the text of the
  exception, and that message is never a schema-violation message. Whenever the loop
  completes, the entry is in the results and \<open>main\<close> returns 1.
\<close>

theorem malformed_schema_gives_other_error:
  assumes "files w (SCHEMA_FILE d) = Some (Text stxt)"
    and "json_loads rt stxt = Inr schema"
    and "fn \<in> set MIRROR_FILES"
    and "files w (joinpath d fn) = Some (Text txt)"
    and "json_loads rt txt = Inr data"
    and "jsonschema_validate rt data schema = Inl (SchemaError m)"
  shows "fst (load_schema rt d w) = Inr schema \<and>
         (\<forall>status. fst (main rt d w) \<noteq> SystemExit status) \<and>
         fst (script rt d w) = 1 \<and>
         fst (validate_file rt schema (joinpath d fn) w) = (False, msg_error @ m) \<and>
         (\<forall>results. fst (validate_files rt d schema MIRROR_FILES [] w) = Inr results \<longrightarrow>
                    (fn, False, msg_error @ m) \<in> set results \<and>
                    fst (main rt d w) = Returned 1) \<and>
         (\<forall>m'. msg_error @ m \<noteq> msg_validation_failed @ m')"
proof (intro conjI allI impI)
  show l: "fst (load_schema rt d w) = Inr schema"
    by (simp add: load_schema_fst assms(1,2))
  have b: "fst (main_loop_body rt d schema fn w) = Inr (fn, False, msg_error @ m)"
    by (simp add: main_loop_body_fst assms(4,5,6))
  show "fst (validate_file rt schema (joinpath d fn) w) = (False, msg_error @ m)"
    by (simp add: validate_file_fst assms(4,5,6))
  show "fst (main rt d w) \<noteq> SystemExit status" for status
  proof (cases "fst (validate_files rt d schema MIRROR_FILES [] w)")
    case (Inl e)
    show ?thesis by (simp add: main_loop_raised(1)[OF l Inl])
  next
    case (Inr results)
    show ?thesis by (simp add: main_schema_loaded(1)[OF l Inr])
  qed
  show "fst (script rt d w) = 1"
  proof -
    have "\<not> (\<exists>r. fst (main_loop_body rt d schema fn w) = Inr r \<and> fst (snd r))"
      by (simp add: b)
    then have "fst (script rt d w) \<noteq> 0"
      using l assms(3) unfolding script_zero_iff by auto
    then show ?thesis
      using script_status_01[of rt d w] by simp
  qed
  show in_results: "(fn, False, msg_error @ m) \<in> set results"
    if "fst (validate_files rt d schema MIRROR_FILES [] w) = Inr results" for results
    using that assms(3) b by (rule results_member)
  show "fst (main rt d w) = Returned 1"
    if r: "fst (validate_files rt d schema MIRROR_FILES [] w) = Inr results" for results
  proof -
    have "\<not> (\<forall>r\<in>set results. fst (snd r))"
      using in_results[OF r] by force
    then show ?thesis
      by (simp add: main_schema_loaded(1)[OF l r])
  qed
  show "msg_error @ m \<noteq> msg_validation_failed @ m'" for m'
    by (rule other_error_is_not_violation)
qed

theorem malformed_schema_witness:
  "fst (load_schema example_rt example_dir
          (example_world (Some (Text [49])) (Some (Text [49, 48])))) = Inr 0 \<and>
   fst (main example_rt example_dir
          (example_world (Some (Text [49])) (Some (Text [49, 48])))) = Returned 1 \<and>
   fst (script example_rt example_dir
          (example_world (Some (Text [49])) (Some (Text [49, 48])))) = 1 \<and>
   fst (validate_file example_rt 0 (joinpath example_dir (ascii ''npm_mirror.json''))
          (example_world (Some (Text [49])) (Some (Text [49, 48])))) =
     (False, msg_error @ ascii ''0 is not a schema'') \<and>
   fst (validate_files example_rt example_dir 0 MIRROR_FILES []
          (example_world (Some (Text [49])) (Some (Text [49, 48])))) =
     Inr [(ascii ''brew_mirror.json'', False, msg_error @ ascii ''0 is not a schema''),
          (ascii ''maven_mirror.json'', False, msg_error @ ascii ''0 is not a schema''),
          (ascii ''npm_mirror.json'', False, msg_error @ ascii ''0 is not a schema''),
          (ascii ''orbstack_mirror.json'', False, msg_error @ ascii ''0 is not a schema''),
          (ascii ''python_pip.json'', False, msg_error @ ascii ''0 is not a schema'')]"
proof -
  let ?w = "example_world (Some (Text [49])) (Some (Text [49, 48]))"
  let ?m = "ascii ''0 is not a schema''"
  have t: "fst (load_schema example_rt example_dir ?w) = Inr 0 \<and>
         (\<forall>status. fst (main example_rt example_dir ?w) \<noteq> SystemExit status) \<and>
         fst (script example_rt example_dir ?w) = 1 \<and>
         fst (validate_file example_rt 0 (joinpath example_dir (ascii ''npm_mirror.json'')) ?w) =
           (False, msg_error @ ?m) \<and>
         (\<forall>results. fst (validate_files example_rt example_dir 0 MIRROR_FILES [] ?w) =
                      Inr results \<longrightarrow>
                    (ascii ''npm_mirror.json'', False, msg_error @ ?m) \<in> set results \<and>
                    fst (main example_rt example_dir ?w) = Returned 1) \<and>
         (\<forall>m'. msg_error @ ?m \<noteq> msg_validation_failed @ m')"
    by (rule malformed_schema_gives_other_error[OF _ _ npm_is_target,
              of ?w example_dir "[49]" example_rt 0 "[49, 48]" 1 ?m])
       (simp_all add: example_file_schema example_file_target npm_is_target example_loads
          example_validate)
  show ?thesis
    using t example_results_bad_schema[of "Some (Text [49])"] by simp
qed

end
